theory Spec2Isabelle
  imports Main
begin

section \<open>JavaScript values\<close>

text \<open>
  The orchestrator (\<^verbatim>\<open>mcp-client-bedrock/build/index.js\<close>) handles values that come out of
  \<^verbatim>\<open>JSON.parse\<close> (model responses, tool results) and object literals it builds itself, some
  of whose properties are \<^verbatim>\<open>undefined\<close>. A number is kept as what \<^verbatim>\<open>String(n)\<close> gives for
  it: its canonical decimal rendering when it is finite, and \<^verbatim>\<open>Infinity\<close>, \<^verbatim>\<open>-Infinity\<close>
  or \<^verbatim>\<open>NaN\<close> otherwise (\<^verbatim>\<open>JSON.parse\<close> gives an infinity for a literal that overflows,
  such as \<^verbatim>\<open>1e400\<close>). The program only ever renders a number or tests its truthiness,
  and both zeros render as \<^verbatim>\<open>0\<close>. An object is an association list in property order,
  with distinct keys.
\<close>

datatype jsval =
    JUndefined
  | JNull
  | JBool bool
  | JNum string
  | JStr string
  | JArr "jsval list"
  | JObj "(string \<times> jsval) list"

text \<open>Truthiness, as \<^verbatim>\<open>!x\<close>, \<^verbatim>\<open>x || y\<close> and \<^verbatim>\<open>x && y\<close> read it.\<close>

fun truthy :: "jsval \<Rightarrow> bool" where
  "truthy JUndefined = False"
| "truthy JNull = False"
| "truthy (JBool b) = b"
| "truthy (JNum s) = (s \<noteq> ''0'' \<and> s \<noteq> ''NaN'')"
| "truthy (JStr s) = (s \<noteq> [])"
| "truthy (JArr xs) = True"
| "truthy (JObj kvs) = True"

definition js_or :: "jsval \<Rightarrow> jsval \<Rightarrow> jsval" where
  "js_or a b = (if truthy a then a else b)"

definition js_nullish :: "jsval \<Rightarrow> bool" where
  "js_nullish v = (v = JUndefined \<or> v = JNull)"

text \<open>
  Property read \<^verbatim>\<open>v.k\<close> on a value that is not null or undefined (the caller checks that
  first, where the source would raise a TypeError). The program reads only the names
  \<^verbatim>\<open>type text name input id content items tableName keyConditionExpression
  expressionAttributeValues expressionAttributeNames filterExpression limit\<close>, none of
  which a string, number, boolean or array has.
\<close>

fun js_prop :: "jsval \<Rightarrow> string \<Rightarrow> jsval" where
  "js_prop (JObj kvs) k = (case map_of kvs k of Some v \<Rightarrow> v | None \<Rightarrow> JUndefined)"
| "js_prop v k = JUndefined"

text \<open>
  \<^verbatim>\<open>Object.keys(v).length\<close> for a value that is not null or undefined: the number of
  own enumerable properties (the indices, for an array or a string).
\<close>

fun Object_keys_length :: "jsval \<Rightarrow> nat" where
  "Object_keys_length (JObj kvs) = length kvs"
| "Object_keys_length (JArr xs) = length xs"
| "Object_keys_length (JStr s) = length s"
| "Object_keys_length v = 0"

text \<open>\<open>v[0]\<close> on a value that is not null or undefined.\<close>

fun js_index0 :: "jsval \<Rightarrow> jsval" where
  "js_index0 (JArr []) = JUndefined"
| "js_index0 (JArr (x # xs)) = x"
| "js_index0 (JStr []) = JUndefined"
| "js_index0 (JStr (c # cs)) = JStr [c]"
| "js_index0 (JObj kvs) = js_prop (JObj kvs) ''0''"
| "js_index0 v = JUndefined"

fun intercalate :: "string \<Rightarrow> string list \<Rightarrow> string" where
  "intercalate sep [] = []"
| "intercalate sep [x] = x"
| "intercalate sep (x # y # ys) = x @ sep @ intercalate sep (y # ys)"

text \<open>
  \<^verbatim>\<open>String(v)\<close>, the coercion of template literals and of \<^verbatim>\<open>RegExp.prototype.test\<close>;
  \<open>js_join_elems\<close> renders the elements of an array as \<^verbatim>\<open>Array.prototype.join\<close> does,
  which writes null and undefined as the empty string.
\<close>

fun js_ToString :: "jsval \<Rightarrow> string"
  and js_join_elems :: "jsval list \<Rightarrow> string list" where
  "js_ToString JUndefined = ''undefined''"
| "js_ToString JNull = ''null''"
| "js_ToString (JBool b) = (if b then ''true'' else ''false'')"
| "js_ToString (JNum s) = s"
| "js_ToString (JStr s) = s"
| "js_ToString (JArr xs) = intercalate '','' (js_join_elems xs)"
| "js_ToString (JObj kvs) = ''[object Object]''"
| "js_join_elems [] = []"
| "js_join_elems (x # xs) =
     (if x = JUndefined \<or> x = JNull then [] else js_ToString x) # js_join_elems xs"

definition js_join :: "jsval list \<Rightarrow> string \<Rightarrow> string" where
  "js_join xs sep = intercalate sep (js_join_elems xs)"

subsection \<open>JSON.stringify\<close>

definition hex_digit :: "nat \<Rightarrow> char" where
  "hex_digit n = ''0123456789abcdef'' ! (n mod 16)"

text \<open>One character of a quoted JSON string.\<close>

definition json_escape :: "char \<Rightarrow> string" where
  "json_escape c =
     (if c = CHR 0x22 then [CHR 0x5C, CHR 0x22]
      else if c = CHR 0x5C then [CHR 0x5C, CHR 0x5C]
      else if c = CHR 0x08 then [CHR 0x5C, CHR ''b'']
      else if c = CHR 0x0C then [CHR 0x5C, CHR ''f'']
      else if c = CHR 0x0A then [CHR 0x5C, CHR ''n'']
      else if c = CHR 0x0D then [CHR 0x5C, CHR ''r'']
      else if c = CHR 0x09 then [CHR 0x5C, CHR ''t'']
      else if of_char c < (32 :: nat)
        then [CHR 0x5C, CHR ''u'', CHR ''0'', CHR ''0'',
              hex_digit (of_char c div 16), hex_digit (of_char c)]
      else [c])"

definition json_quote :: "string \<Rightarrow> string" where
  "json_quote s = CHR 0x22 # concat (map json_escape s) @ [CHR 0x22]"

text \<open>A number in JSON text: a number that is not finite is written \<^verbatim>\<open>null\<close>.\<close>

definition json_number :: "string \<Rightarrow> string" where
  "json_number s =
     (if s = ''Infinity'' \<or> s = ''-Infinity'' \<or> s = ''NaN'' then ''null'' else s)"

text \<open>
  \<^verbatim>\<open>JSON.stringify(v)\<close>: \<open>None\<close> is the result \<^verbatim>\<open>undefined\<close>. A property whose value is
  undefined is left out of an object; an undefined array element is written \<^verbatim>\<open>null\<close>.
\<close>

fun JSON_stringify :: "jsval \<Rightarrow> string option"
  and stringify_elems :: "jsval list \<Rightarrow> string list"
  and stringify_props :: "(string \<times> jsval) list \<Rightarrow> string list" where
  "JSON_stringify JUndefined = None"
| "JSON_stringify JNull = Some ''null''"
| "JSON_stringify (JBool b) = Some (if b then ''true'' else ''false'')"
| "JSON_stringify (JNum s) = Some (json_number s)"
| "JSON_stringify (JStr s) = Some (json_quote s)"
| "JSON_stringify (JArr xs) = Some (''['' @ intercalate '','' (stringify_elems xs) @ '']'')"
| "JSON_stringify (JObj kvs) = Some (''{'' @ intercalate '','' (stringify_props kvs) @ ''}'')"
| "stringify_elems [] = []"
| "stringify_elems (x # xs) =
     (case JSON_stringify x of None \<Rightarrow> ''null'' | Some t \<Rightarrow> t) # stringify_elems xs"
| "stringify_props [] = []"
| "stringify_props ((k, v) # kvs) =
     (case JSON_stringify v of
        None \<Rightarrow> stringify_props kvs
      | Some t \<Rightarrow> (json_quote k @ '':'' @ t) # stringify_props kvs)"

text \<open>
  \<^verbatim>\<open>JSON.stringify(v, null, 2)\<close>; \<open>ind\<close> is the indentation of the line the value
  starts on, and every level adds two spaces.
\<close>

fun JSON_stringify_indent :: "string \<Rightarrow> jsval \<Rightarrow> string option"
  and stringify_indent_elems :: "string \<Rightarrow> jsval list \<Rightarrow> string list"
  and stringify_indent_props :: "string \<Rightarrow> (string \<times> jsval) list \<Rightarrow> string list" where
  "JSON_stringify_indent ind JUndefined = None"
| "JSON_stringify_indent ind JNull = Some ''null''"
| "JSON_stringify_indent ind (JBool b) = Some (if b then ''true'' else ''false'')"
| "JSON_stringify_indent ind (JNum s) = Some (json_number s)"
| "JSON_stringify_indent ind (JStr s) = Some (json_quote s)"
| "JSON_stringify_indent ind (JArr xs) =
     Some (case stringify_indent_elems (ind @ ''  '') xs of
             [] \<Rightarrow> ''[]''
           | ts \<Rightarrow> ''['' @ [CHR 0x0A] @ ind @ ''  ''
                   @ intercalate ('','' @ [CHR 0x0A] @ ind @ ''  '') ts
                   @ [CHR 0x0A] @ ind @ '']'')"
| "JSON_stringify_indent ind (JObj kvs) =
     Some (case stringify_indent_props (ind @ ''  '') kvs of
             [] \<Rightarrow> ''{}''
           | ts \<Rightarrow> ''{'' @ [CHR 0x0A] @ ind @ ''  ''
                   @ intercalate ('','' @ [CHR 0x0A] @ ind @ ''  '') ts
                   @ [CHR 0x0A] @ ind @ ''}'')"
| "stringify_indent_elems ind [] = []"
| "stringify_indent_elems ind (x # xs) =
     (case JSON_stringify_indent ind x of None \<Rightarrow> ''null'' | Some t \<Rightarrow> t)
       # stringify_indent_elems ind xs"
| "stringify_indent_props ind [] = []"
| "stringify_indent_props ind ((k, v) # kvs) =
     (case JSON_stringify_indent ind v of
        None \<Rightarrow> stringify_indent_props ind kvs
      | Some t \<Rightarrow> (json_quote k @ '': '' @ t) # stringify_indent_props ind kvs)"

text \<open>String concatenation \<^verbatim>\<open>+\<close> and interpolation of a value that may be undefined.\<close>

definition js_string_of :: "string option \<Rightarrow> string" where
  "js_string_of r = (case r of None \<Rightarrow> ''undefined'' | Some t \<Rightarrow> t)"

section \<open>The query/scan fallback heuristic\<close>

text \<open>
  The two regular expressions of \<^verbatim>\<open>processQuery\<close> (index.js, lines 118 and 120), for a
  key made of word characters. \<^verbatim>\<open>\b\<close> holds between a word character
  \<^verbatim>\<open>[A-Za-z0-9_]\<close> and a character that is not one, or an end of the string.
\<close>

definition is_word_char :: "char \<Rightarrow> bool" where
  "is_word_char c =
     (c \<in> set ''abcdefghijklmnopqrstuvwxyzABCDEFGHIJKLMNOPQRSTUVWXYZ0123456789_'')"

text \<open>\<open>p\<close> is the character before the position, \<open>r\<close> the text from the position on.\<close>

definition word_boundary :: "char option \<Rightarrow> string \<Rightarrow> bool" where
  "word_boundary p r =
     ((case p of None \<Rightarrow> False | Some c \<Rightarrow> is_word_char c)
        \<noteq> (case r of [] \<Rightarrow> False | c # cs \<Rightarrow> is_word_char c))"

fun after_literal :: "string \<Rightarrow> string \<Rightarrow> string option" where
  "after_literal [] r = Some r"
| "after_literal (k # ks) [] = None"
| "after_literal (k # ks) (c # cs) = (if k = c then after_literal ks cs else None)"

text \<open>The alternatives \<^verbatim>\<open>\bKEY\b\<close> and \<^verbatim>\<open>#KEY\b\<close>, tried at one position.\<close>

definition bare_key_here :: "string \<Rightarrow> char option \<Rightarrow> string \<Rightarrow> bool" where
  "bare_key_here key p r =
     (word_boundary p r \<and>
      (case after_literal key r of
         None \<Rightarrow> False
       | Some r' \<Rightarrow> word_boundary (Some (last key)) r'))"

definition alias_key_here :: "string \<Rightarrow> string \<Rightarrow> bool" where
  "alias_key_here key r =
     (case after_literal (CHR ''#'' # key) r of
        None \<Rightarrow> False
      | Some r' \<Rightarrow> word_boundary (Some (last key)) r')"

fun key_search :: "string \<Rightarrow> char option \<Rightarrow> string \<Rightarrow> bool" where
  "key_search key p [] = (bare_key_here key p [] \<or> alias_key_here key [])"
| "key_search key p (c # cs) =
     (bare_key_here key p (c # cs) \<or> alias_key_here key (c # cs) \<or> key_search key (Some c) cs)"

definition partition_key_test :: "string \<Rightarrow> string \<Rightarrow> bool" where
  "partition_key_test key s = key_search key None s"

text \<open>\<^verbatim>\<open>/[<>!=]/.test(s)\<close>\<close>

definition comparison_test :: "string \<Rightarrow> bool" where
  "comparison_test s = list_ex (\<lambda>c. c \<in> set ''<>!='') s"

definition partitionKey :: string where
  "partitionKey = ''id''"

text \<open>Lines 115 to 120; \<open>toolArgs\<close> is not null or undefined here.\<close>

definition missingPartitionKey :: "jsval \<Rightarrow> bool" where
  "missingPartitionKey toolArgs =
     (\<not> truthy (js_prop toolArgs ''keyConditionExpression'') \<or>
      \<not> truthy (js_prop toolArgs ''expressionAttributeValues'') \<or>
      Object_keys_length (js_prop toolArgs ''expressionAttributeValues'') = 0 \<or>
      \<not> partition_key_test partitionKey
           (js_ToString (js_prop toolArgs ''keyConditionExpression'')))"

definition isInvalidKeyCondition :: "jsval \<Rightarrow> bool" where
  "isInvalidKeyCondition toolArgs =
     (missingPartitionKey toolArgs \<or>
      comparison_test (js_ToString (js_prop toolArgs ''keyConditionExpression'')))"

text \<open>Lines 124 to 130.\<close>

definition scanArgs :: "jsval \<Rightarrow> jsval" where
  "scanArgs toolArgs = JObj
     [(''tableName'', js_prop toolArgs ''tableName''),
      (''filterExpression'',
         js_or (js_prop toolArgs ''filterExpression'')
               (js_prop toolArgs ''keyConditionExpression'')),
      (''expressionAttributeNames'', js_prop toolArgs ''expressionAttributeNames''),
      (''expressionAttributeValues'', js_prop toolArgs ''expressionAttributeValues''),
      (''limit'', js_prop toolArgs ''limit'')]"

text \<open>The tool and the arguments that \<^verbatim>\<open>processQuery\<close> sends to the server (line 122).\<close>

definition dispatched :: "jsval \<Rightarrow> jsval \<Rightarrow> jsval \<times> jsval" where
  "dispatched toolName toolArgs =
     (if toolName = JStr ''query_table'' \<and> isInvalidKeyCondition toolArgs
      then (JStr ''scan_table'', scanArgs toolArgs)
      else (toolName, toolArgs))"

definition trace_line :: "jsval \<Rightarrow> jsval \<Rightarrow> string" where
  "trace_line name args =
     ''[Calling tool '' @ js_ToString name @ '' with args ''
       @ js_string_of (JSON_stringify args) @ '']''"

section \<open>The orchestrator and what it talks to\<close>

text \<open>
  What a \<^verbatim>\<open>catch\<close> receives: an \<^verbatim>\<open>Error\<close> instance with its message, or any other
  thrown value. The faults the JavaScript engine itself raises in \<^verbatim>\<open>processQuery\<close> are
  Error instances whose wording is the engine's.
\<close>

datatype thrown = ErrorInstance string | NonError jsval

datatype engine_fault =
    ReadOfNullish string
  | NotIterable
  | BadJSON

text \<open>The parameters of an \<^verbatim>\<open>InvokeModelCommand\<close>; \<open>body\<close> is the payload that
  \<^verbatim>\<open>JSON.stringify\<close> puts on the wire, \<open>inferenceProfileArn\<close> is \<open>None\<close> when the
  property is not set.\<close>

record command =
  modelId :: string
  contentType :: string
  accept :: string
  body :: jsval
  inferenceProfileArn :: "jsval option"

text \<open>Everything the process does to the outside, in order.\<close>

datatype event =
    Sent command
  | CalledTool jsval jsval
  | StartedTransport string "string list"
  | ListedTools
  | ClosedClient
  | ConsoleLog string
  | LogConnected "jsval list"
  | LogConnectFailed thrown
  | LogBedrockError thrown
  | Question string
  | ClosedReadline

text \<open>
  The model endpoint, the tool server behind the MCP client and the platform, over a
  state \<open>'w\<close> of the outside world. \<open>bedrock_send\<close> gives the decoded text of the response
  body or what \<^verbatim>\<open>send\<close> threw. \<open>mcp_callTool\<close> gives the properties of the result
  object (the SDK client resolves to an object that passed its result schema, never to
  null or undefined) or what the call threw, \<open>mcp_listTools\<close> the tool objects of the
  catalog. \<open>JSON_parse\<close> is \<open>None\<close> where \<^verbatim>\<open>JSON.parse\<close> raises a SyntaxError.
\<close>

record 'w services =
  bedrock_send :: "'w \<Rightarrow> command \<Rightarrow> (thrown + string) \<times> 'w"
  mcp_connect :: "'w \<Rightarrow> string \<Rightarrow> string list \<Rightarrow> 'w"
  mcp_listTools :: "'w \<Rightarrow> (thrown + jsval list) \<times> 'w"
  mcp_callTool :: "'w \<Rightarrow> jsval \<Rightarrow> jsval \<Rightarrow> (thrown + (string \<times> jsval) list) \<times> 'w"
  mcp_close :: "'w \<Rightarrow> (thrown + unit) \<times> 'w"
  JSON_parse :: "string \<Rightarrow> jsval option"
  engine_message :: "engine_fault \<Rightarrow> string"
  platform_win32 :: bool
  execPath :: string

definition engine_error :: "'w services \<Rightarrow> engine_fault \<Rightarrow> thrown" where
  "engine_error svc f = ErrorInstance (engine_message svc f)"

text \<open>The fields of \<^verbatim>\<open>class MCPClient\<close> (lines 13 to 18).\<close>

record client =
  transport :: "(string \<times> string list) option"
  tools :: "jsval list"
  client_modelId :: string
  inferenceProfileId :: jsval

text \<open>The constructor (lines 19 to 22) does not read its parameter.\<close>

definition new_MCPClient :: "jsval \<Rightarrow> client" where
  "new_MCPClient inferenceProfileId_arg =
     \<lparr>transport = None, tools = [],
      client_modelId = ''anthropic.claude-3-sonnet-20240229-v1:0'',
      inferenceProfileId = JNull\<rparr>"

text \<open>The state of one \<^verbatim>\<open>processQuery\<close> call: the outside, and the three local arrays.\<close>

record 'w turn =
  world :: 'w
  events :: "event list"
  messages :: "jsval list"
  finalText :: "jsval list"
  toolResults :: "jsval list"

subsection \<open>Messages and payloads\<close>

definition user_text_message :: "string \<Rightarrow> jsval" where
  "user_text_message query = JObj
     [(''role'', JStr ''user''),
      (''content'', JArr [JObj [(''type'', JStr ''text''), (''text'', JStr query)]])]"

definition tool_use_message :: "jsval \<Rightarrow> jsval \<Rightarrow> jsval \<Rightarrow> jsval" where
  "tool_use_message tid toolName toolArgs = JObj
     [(''role'', JStr ''assistant''),
      (''content'', JArr [JObj [(''type'', JStr ''tool_use''), (''id'', tid),
                                (''name'', toolName), (''input'', toolArgs)]])]"

definition tool_result_message :: "jsval \<Rightarrow> string \<Rightarrow> jsval" where
  "tool_result_message tid txt = JObj
     [(''role'', JStr ''user''),
      (''content'', JArr [JObj [(''type'', JStr ''tool_result''), (''tool_use_id'', tid),
                                (''content'', JStr txt)]])]"

text \<open>Lines 70 to 74.\<close>

definition bedrock_tool :: "jsval \<Rightarrow> jsval" where
  "bedrock_tool tool = JObj
     [(''name'', js_prop tool ''name''),
      (''description'', js_or (js_prop tool ''description'') (JStr [])),
      (''input_schema'', js_prop tool ''input_schema'')]"

definition generation_parameters :: "(string \<times> jsval) list" where
  "generation_parameters =
     [(''anthropic_version'', JStr ''bedrock-2023-05-31''),
      (''max_tokens'', JNum ''1000''),
      (''top_k'', JNum ''250''),
      (''stop_sequences'', JArr []),
      (''temperature'', JNum ''0.7''),
      (''top_p'', JNum ''0.999'')]"

text \<open>Lines 69 to 86: the first request of a turn.\<close>

definition payload :: "jsval list \<Rightarrow> jsval list \<Rightarrow> jsval" where
  "payload ts msgs = JObj
     (generation_parameters @ [(''messages'', JArr msgs)]
        @ (if length ts > 0 then [(''tools'', JArr (map bedrock_tool ts))] else []))"

text \<open>Lines 206 to 215: the request after a tool call.\<close>

definition followUpPayload :: "jsval list \<Rightarrow> jsval list \<Rightarrow> jsval" where
  "followUpPayload ts msgs = JObj
     (generation_parameters @ [(''messages'', JArr msgs),
        (''tools'', if length ts > 0 then JArr (map bedrock_tool ts) else JUndefined)])"

text \<open>Lines 88 to 96.\<close>

definition commandParams :: "client \<Rightarrow> jsval list \<Rightarrow> command" where
  "commandParams cl msgs =
     \<lparr>modelId = client_modelId cl, contentType = ''application/json'',
      accept = ''application/json'', body = payload (tools cl) msgs,
      inferenceProfileArn =
        (if truthy (inferenceProfileId cl) then Some (inferenceProfileId cl) else None)\<rparr>"

text \<open>Lines 216 to 221.\<close>

definition followUpCommandParams :: "client \<Rightarrow> jsval list \<Rightarrow> command" where
  "followUpCommandParams cl msgs =
     \<lparr>modelId = client_modelId cl, contentType = ''application/json'',
      accept = ''application/json'', body = followUpPayload (tools cl) msgs,
      inferenceProfileArn = None\<rparr>"

subsection \<open>One tool-use block\<close>

text \<open>
  Lines 121 to 145: the call goes out, and when it returns its result and the trace
  line of the call that was made are pushed. A call that throws leaves the turn.
\<close>

definition dispatch_tool ::
  "'w services \<Rightarrow> jsval \<Rightarrow> jsval \<Rightarrow> 'w turn \<Rightarrow> (thrown + jsval) \<times> 'w turn" where
  "dispatch_tool svc toolName toolArgs t =
     (let (name, args) = dispatched toolName toolArgs;
          (r, w) = mcp_callTool svc (world t) name args;
          t1 = t\<lparr>world := w, events := events t @ [CalledTool name args]\<rparr>
      in case r of
           Inl e \<Rightarrow> (Inl e, t1)
         | Inr props \<Rightarrow>
             (Inr (JObj props),
              t1\<lparr>toolResults := toolResults t1 @ [JObj props],
                 finalText := finalText t1 @ [JStr (trace_line name args)]\<rparr>))"

text \<open>
  Lines 148 to 154 and 182 to 188: the text payload of a result's content, parsed.
  \<open>None\<close> is the SyntaxError that the enclosing \<^verbatim>\<open>try\<close> swallows, \<open>Some JNull\<close> a
  content with no text payload.
\<close>

definition parse_payload :: "'w services \<Rightarrow> jsval \<Rightarrow> jsval option" where
  "parse_payload svc c =
     (case c of
        JStr s \<Rightarrow> JSON_parse svc s
      | JArr (x # xs) \<Rightarrow>
          (if js_nullish x then Some JNull
           else case js_prop x ''text'' of
                  JStr s \<Rightarrow> JSON_parse svc s
                | _ \<Rightarrow> Some JNull)
      | _ \<Rightarrow> Some JNull)"

definition is_array :: "jsval \<Rightarrow> bool" where
  "is_array v = (case v of JArr xs \<Rightarrow> True | _ \<Rightarrow> False)"

text \<open>Lines 147 to 161: the items go to the console; nothing thrown here leaves the block.\<close>

definition print_items :: "'w services \<Rightarrow> jsval \<Rightarrow> 'w turn \<Rightarrow> 'w turn" where
  "print_items svc result t =
     (case parse_payload svc (js_prop result ''content'') of
        None \<Rightarrow> t
      | Some parsed \<Rightarrow>
          if truthy parsed \<and> truthy (js_prop parsed ''items'')
             \<and> is_array (js_prop parsed ''items'')
          then t\<lparr>events := events t @
                 [ConsoleLog (CHR 0x0A # ''--- Actual items from tool ---''),
                  ConsoleLog (js_string_of (JSON_stringify_indent [] (js_prop parsed ''items''))),
                  ConsoleLog (''--- End items ---'' @ [CHR 0x0A])]\<rparr>
          else t)"

text \<open>Lines 180 to 193, for the content of a result.\<close>

definition itemsText :: "'w services \<Rightarrow> jsval \<Rightarrow> string" where
  "itemsText svc c =
     (case parse_payload svc c of
        None \<Rightarrow> []
      | Some parsed \<Rightarrow>
          if truthy parsed \<and> truthy (js_prop parsed ''items'')
          then CHR 0x0A # ''Actual items:'' @ [CHR 0x0A]
                 @ js_string_of (JSON_stringify_indent [] (js_prop parsed ''items''))
          else [])"

text \<open>Line 178.\<close>

definition toolResultContent :: "jsval \<Rightarrow> string option" where
  "toolResultContent c = (case c of JStr s \<Rightarrow> Some s | _ \<Rightarrow> JSON_stringify c)"

text \<open>Lines 205 to 227: the follow-up request and the text of its first block.\<close>

definition follow_up :: "'w services \<Rightarrow> client \<Rightarrow> 'w turn \<Rightarrow> thrown option \<times> 'w turn" where
  "follow_up svc cl t =
     (let cmd = followUpCommandParams cl (messages t);
          (r, w) = bedrock_send svc (world t) cmd;
          t1 = t\<lparr>world := w, events := events t @ [Sent cmd]\<rparr>
      in case r of
           Inl e \<Rightarrow> (Some e, t1)
         | Inr txt \<Rightarrow>
             (case JSON_parse svc txt of
                None \<Rightarrow> (Some (engine_error svc BadJSON), t1)
              | Some followUpBody \<Rightarrow>
                  if js_nullish followUpBody
                  then (Some (engine_error svc (ReadOfNullish ''content'')), t1)
                  else let c = js_prop followUpBody ''content'' in
                    if truthy c \<and> truthy (js_index0 c)
                       \<and> js_prop (js_index0 c) ''type'' = JStr ''text''
                    then (None, t1\<lparr>finalText := finalText t1 @ [js_prop (js_index0 c) ''text'']\<rparr>)
                    else (None, t1)))"

text \<open>Lines 110 to 227. \<open>Some e\<close> is what the block threw into the \<^verbatim>\<open>catch\<close> of line 232.\<close>

definition process_tool_use ::
  "'w services \<Rightarrow> client \<Rightarrow> jsval \<Rightarrow> 'w turn \<Rightarrow> thrown option \<times> 'w turn" where
  "process_tool_use svc cl content t =
     (let toolName = js_prop content ''name'';
          toolArgs = js_prop content ''input''
      in if js_nullish toolArgs
         then (Some (engine_error svc (ReadOfNullish ''keyConditionExpression'')), t)
         else case dispatch_tool svc toolName toolArgs t of
                (Inl e, t1) \<Rightarrow> (Some e, t1)
              | (Inr result, t1) \<Rightarrow>
                  let t2 = print_items svc result t1;
                      t3 = t2\<lparr>toolResults := toolResults t2 @ [result],
                              finalText := finalText t2 @ [JStr (trace_line toolName toolArgs)]\<rparr>;
                      t4 = t3\<lparr>messages := messages t3 @
                              [tool_use_message (js_prop content ''id'') toolName toolArgs]\<rparr>;
                      c = js_prop result ''content'';
                      t5 = t4\<lparr>messages := messages t4 @
                              [tool_result_message (js_prop content ''id'')
                                 (js_string_of (toolResultContent c) @ itemsText svc c)]\<rparr>
                  in follow_up svc cl t5)"

subsection \<open>One turn\<close>

text \<open>The loop of line 105 over the blocks of the response.\<close>

fun process_content ::
  "'w services \<Rightarrow> client \<Rightarrow> jsval list \<Rightarrow> 'w turn \<Rightarrow> thrown option \<times> 'w turn" where
  "process_content svc cl [] t = (None, t)"
| "process_content svc cl (content # rest) t =
     (if js_nullish content then (Some (engine_error svc (ReadOfNullish ''type'')), t)
      else if js_prop content ''type'' = JStr ''text''
        then process_content svc cl rest (t\<lparr>finalText := finalText t @ [js_prop content ''text'']\<rparr>)
      else if js_prop content ''type'' = JStr ''tool_use''
        then (case process_tool_use svc cl content t of
                (Some e, t') \<Rightarrow> (Some e, t')
              | (None, t') \<Rightarrow> process_content svc cl rest t')
      else process_content svc cl rest t)"

text \<open>
  What \<^verbatim>\<open>for (const content of v)\<close> iterates: the elements of an array, the characters
  of a string (each a string of its own); \<open>None\<close> where the engine raises a TypeError.
\<close>

definition js_iterate :: "jsval \<Rightarrow> jsval list option" where
  "js_iterate v =
     (case v of JArr xs \<Rightarrow> Some xs | JStr s \<Rightarrow> Some (map (\<lambda>c. JStr [c]) s) | _ \<Rightarrow> None)"

text \<open>Lines 57 to 229, up to the \<^verbatim>\<open>return\<close> or the throw.\<close>

definition run_turn ::
  "'w services \<Rightarrow> client \<Rightarrow> string \<Rightarrow> 'w \<Rightarrow> event list \<Rightarrow> thrown option \<times> 'w turn" where
  "run_turn svc cl query w evs =
     (let msgs = [user_text_message query];
          cmd = commandParams cl msgs;
          (r, w1) = bedrock_send svc w cmd;
          t = \<lparr>world = w1, events = evs @ [Sent cmd], messages = msgs,
               finalText = [], toolResults = []\<rparr>
      in case r of
           Inl e \<Rightarrow> (Some e, t)
         | Inr txt \<Rightarrow>
             (case JSON_parse svc txt of
                None \<Rightarrow> (Some (engine_error svc BadJSON), t)
              | Some responseBody \<Rightarrow>
                  if js_nullish responseBody
                  then (Some (engine_error svc (ReadOfNullish ''content'')), t)
                  else (case js_iterate (js_prop responseBody ''content'') of
                          None \<Rightarrow> (Some (engine_error svc NotIterable), t)
                        | Some blocks \<Rightarrow> process_content svc cl blocks t)))"

text \<open>Line 234.\<close>

definition error_reply :: "thrown \<Rightarrow> string" where
  "error_reply e =
     ''Error: '' @ (case e of ErrorInstance m \<Rightarrow> m | NonError v \<Rightarrow> js_ToString v)"

text \<open>
  \<^verbatim>\<open>processQuery\<close> (lines 55 to 236): the returned string, and the outside as the call
  leaves it. The message list does not outlive the call.
\<close>

definition processQuery ::
  "'w services \<Rightarrow> client \<Rightarrow> string \<Rightarrow> 'w \<Rightarrow> event list \<Rightarrow> string \<times> 'w \<times> event list" where
  "processQuery svc cl query w evs =
     (case run_turn svc cl query w evs of
        (None, t) \<Rightarrow> (js_join (finalText t) [CHR 0x0A], world t, events t)
      | (Some e, t) \<Rightarrow> (error_reply e, world t, events t @ [LogBedrockError e]))"

section \<open>Connection, interactive loop and main\<close>

definition ends_with :: "string \<Rightarrow> string \<Rightarrow> bool" where
  "ends_with s suf = (length suf \<le> length s \<and> drop (length s - length suf) s = suf)"

text \<open>Lines 41 to 47.\<close>

definition catalog_tool :: "jsval \<Rightarrow> jsval" where
  "catalog_tool tool = JObj
     [(''name'', js_prop tool ''name''),
      (''description'', js_or (js_prop tool ''description'') (JStr [])),
      (''input_schema'', js_prop tool ''inputSchema'')]"

text \<open>
  \<^verbatim>\<open>connectToServer\<close> (lines 23 to 54): \<open>Some e\<close> is what it rethrows after logging.
  \<^verbatim>\<open>mcp.connect\<close> is started and not awaited, so a server that cannot be reached shows
  as a failure of \<^verbatim>\<open>listTools\<close>.
\<close>

definition connectToServer ::
  "'w services \<Rightarrow> client \<Rightarrow> string \<Rightarrow> 'w \<Rightarrow> event list
     \<Rightarrow> thrown option \<times> client \<times> 'w \<times> event list" where
  "connectToServer svc cl serverScriptPath w evs =
     (let isJs = ends_with serverScriptPath ''.js'';
          isPy = ends_with serverScriptPath ''.py''
      in if \<not> isJs \<and> \<not> isPy
         then (let e = ErrorInstance ''Server script must be a .js or .py file''
               in (Some e, cl, w, evs @ [LogConnectFailed e]))
         else
           let cmd = (if isPy then (if platform_win32 svc then ''python'' else ''python3'')
                      else execPath svc);
               cl1 = cl\<lparr>transport := Some (cmd, [serverScriptPath])\<rparr>;
               w1 = mcp_connect svc w cmd [serverScriptPath];
               (r, w2) = mcp_listTools svc w1;
               evs1 = evs @ [StartedTransport cmd [serverScriptPath], ListedTools]
           in case r of
                Inl e \<Rightarrow> (Some e, cl1, w2, evs1 @ [LogConnectFailed e])
              | Inr ts \<Rightarrow>
                  (let cl2 = cl1\<lparr>tools := map catalog_tool ts\<rparr>
                   in (None, cl2, w2,
                       evs1 @ [LogConnected (map (\<lambda>t. js_prop t ''name'') (tools cl2))])))"

text \<open>
  \<^verbatim>\<open>toLowerCase\<close>, on the letters A to Z. (No other character lower-cases to a letter of
  \<^verbatim>\<open>quit\<close> or \<^verbatim>\<open>tools\<close>, the two words the loop compares with.)
\<close>

definition lower_char :: "char \<Rightarrow> char" where
  "lower_char c =
     (case map_of (zip ''ABCDEFGHIJKLMNOPQRSTUVWXYZ'' ''abcdefghijklmnopqrstuvwxyz'') c of
        Some l \<Rightarrow> l
      | None \<Rightarrow> c)"

definition toLowerCase :: "string \<Rightarrow> string" where
  "toLowerCase s = map lower_char s"

datatype loop_end = Quit | InputClosed

definition query_prompt :: string where
  "query_prompt = CHR 0x0A # ''Query: ''"

text \<open>
  The \<^verbatim>\<open>while (true)\<close> of lines 245 to 255, over the lines that standard input still
  holds. When there is none left the question is never answered.
\<close>

fun chat_rounds ::
  "'w services \<Rightarrow> client \<Rightarrow> string list \<Rightarrow> 'w \<Rightarrow> event list \<Rightarrow> loop_end \<times> 'w \<times> event list" where
  "chat_rounds svc cl [] w evs = (InputClosed, w, evs @ [Question query_prompt])"
| "chat_rounds svc cl (message # rest) w evs =
     (if toLowerCase message = ''quit'' then (Quit, w, evs @ [Question query_prompt])
      else if toLowerCase message = ''tools''
        then chat_rounds svc cl rest w (evs @ [Question query_prompt])
      else (case processQuery svc cl message w (evs @ [Question query_prompt]) of
              (response, w', evs') \<Rightarrow>
                chat_rounds svc cl rest w' (evs' @ [ConsoleLog (CHR 0x0A # response)])))"

text \<open>\<^verbatim>\<open>chatLoop\<close> (lines 237 to 260).\<close>

definition chatLoop ::
  "'w services \<Rightarrow> client \<Rightarrow> string list \<Rightarrow> 'w \<Rightarrow> event list \<Rightarrow> loop_end \<times> 'w \<times> event list" where
  "chatLoop svc cl stdin w evs =
     (case chat_rounds svc cl stdin w
             (evs @ [ConsoleLog (CHR 0x0A # ''MCP Client with Bedrock Started with Bedrock!''),
                     ConsoleLog ''Type your queries, 'tools' to list tools, or 'quit' to exit.''])
      of (Quit, w', evs') \<Rightarrow> (Quit, w', evs' @ [ClosedReadline])
       | (InputClosed, w', evs') \<Rightarrow> (InputClosed, w', evs'))"

text \<open>
  How the program ends: with \<^verbatim>\<open>process.exit(n)\<close>, by \<^verbatim>\<open>main\<close> returning, with the promise
  of \<^verbatim>\<open>main\<close> rejected (nothing in the file handles that), waiting for input that does
  not come, or with an exception thrown while the module loads.
\<close>

datatype ending = Exit nat | Returned | Rejected thrown | Waiting | Uncaught thrown

text \<open>The \<^verbatim>\<open>finally\<close> block of lines 283 to 286, entered on return and on throw alike.\<close>

definition cleanup_and_exit :: "'w services \<Rightarrow> 'w \<Rightarrow> event list \<Rightarrow> ending \<times> 'w \<times> event list" where
  "cleanup_and_exit svc w evs =
     (case mcp_close svc w of
        (Inl e, w') \<Rightarrow> (Rejected e, w', evs @ [ClosedClient])
      | (Inr u, w') \<Rightarrow> (Exit 0, w', evs @ [ClosedClient]))"

text \<open>\<^verbatim>\<open>main\<close> (lines 265 to 287); \<open>argv\<close> is \<^verbatim>\<open>process.argv\<close>.\<close>

definition main ::
  "'w services \<Rightarrow> string list \<Rightarrow> string list \<Rightarrow> 'w \<Rightarrow> ending \<times> 'w \<times> event list" where
  "main svc argv stdin w =
     (if length argv < 3
      then (Returned, w,
            [ConsoleLog ''Usage: node index.ts <path_to_server_script> [inference_profile_id]''])
      else
        let inferenceProfileId = JStr ''us.anthropic.claude-opus-4-1-20250805-v1:0'';
            mcpClient = new_MCPClient (js_or inferenceProfileId JUndefined);
            evs = [ConsoleLog
                     (if truthy inferenceProfileId
                      then ''Using inference profile ID: '' @ js_ToString inferenceProfileId
                      else ''No inference profile ID provided. Using model ID directly.'')]
        in case connectToServer svc mcpClient (argv ! 2) w evs of
             (Some e, cl, w1, evs1) \<Rightarrow> cleanup_and_exit svc w1 evs1
           | (None, cl, w1, evs1) \<Rightarrow>
               (case chatLoop svc cl stdin w1 evs1 of
                  (Quit, w2, evs2) \<Rightarrow> cleanup_and_exit svc w2 evs2
                | (InputClosed, w2, evs2) \<Rightarrow> (Waiting, w2, evs2)))"

text \<open>
  The module itself (lines 6 to 11 and 288): without a region in the environment (an
  empty one counts as none) it throws while loading, and \<^verbatim>\<open>main\<close> is never called.
\<close>

definition program ::
  "'w services \<Rightarrow> string option \<Rightarrow> string list \<Rightarrow> string list \<Rightarrow> 'w
     \<Rightarrow> ending \<times> 'w \<times> event list" where
  "program svc AWS_REGION argv stdin w =
     (if AWS_REGION = None \<or> AWS_REGION = Some []
      then (Uncaught (ErrorInstance ''AWS_REGION is not set in .env file''), w, [])
      else main svc argv stdin w)"

section \<open>Reading the record of a run\<close>

definition sent_commands :: "event list \<Rightarrow> command list" where
  "sent_commands evs = concat (map (\<lambda>e. case e of Sent c \<Rightarrow> [c] | _ \<Rightarrow> []) evs)"

definition tool_calls :: "event list \<Rightarrow> (jsval \<times> jsval) list" where
  "tool_calls evs = concat (map (\<lambda>e. case e of CalledTool n a \<Rightarrow> [(n, a)] | _ \<Rightarrow> []) evs)"

definition request_messages :: "command \<Rightarrow> jsval" where
  "request_messages c = js_prop (body c) ''messages''"

text \<open>The first content block of a message.\<close>

definition first_block :: "jsval \<Rightarrow> jsval" where
  "first_block m = js_index0 (js_prop m ''content'')"

definition is_tool_use :: "jsval \<Rightarrow> bool" where
  "is_tool_use m =
     (js_prop m ''role'' = JStr ''assistant'' \<and> js_prop (first_block m) ''type'' = JStr ''tool_use'')"

definition is_tool_result :: "jsval \<Rightarrow> bool" where
  "is_tool_result m =
     (js_prop m ''role'' = JStr ''user'' \<and> js_prop (first_block m) ''type'' = JStr ''tool_result'')"

text \<open>
  A stretch of transcript made of tool-use/tool-result pairs only: each tool-use message
  is directly followed by one tool-result message carrying its id, and then the next
  pair starts.
\<close>

fun tool_pairs :: "jsval list \<Rightarrow> bool" where
  "tool_pairs [] = True"
| "tool_pairs [m] = False"
| "tool_pairs (u # r # rest) =
     (is_tool_use u \<and> is_tool_result r
      \<and> js_prop (first_block r) ''tool_use_id'' = js_prop (first_block u) ''id''
      \<and> tool_pairs rest)"

definition property_names :: "jsval \<Rightarrow> string list" where
  "property_names v = (case v of JObj kvs \<Rightarrow> map fst kvs | _ \<Rightarrow> [])"

text \<open>
  The follow-up requests that go with a list of tool-use/tool-result pairs appended to
  \<open>base\<close>: one per pair, each carrying the transcript up to and including its pair.
\<close>

fun follow_ups :: "client \<Rightarrow> jsval list \<Rightarrow> jsval list \<Rightarrow> command list" where
  "follow_ups cl base (u # r # rest) =
     followUpCommandParams cl (base @ [u, r]) # follow_ups cl (base @ [u, r]) rest"
| "follow_ups cl base rest = []"

section \<open>A scripted outside\<close>

text \<open>
  To run the definitions on concrete sessions: the model endpoint answers with the
  listed replies in turn (each reply a response body, sent as its JSON text, or a
  failure of the call), the tool server with the listed results in turn, and
  \<^verbatim>\<open>JSON.parse\<close> is known on the JSON texts of the listed values. The world counts the
  model calls and the tool calls made so far.
\<close>

definition json_text :: "jsval \<Rightarrow> string" where
  "json_text v = js_string_of (JSON_stringify v)"

definition scripted ::
  "jsval list \<Rightarrow> jsval list \<Rightarrow> (thrown + jsval) list \<Rightarrow> (thrown + (string \<times> jsval) list) list
     \<Rightarrow> (nat \<times> nat) services" where
  "scripted catalog parsed replies results =
     \<lparr>bedrock_send = (\<lambda>w cmd.
        ((if fst w < length replies
          then (case replies ! fst w of Inl e \<Rightarrow> Inl e | Inr v \<Rightarrow> Inr (json_text v))
          else Inl (ErrorInstance ''no reply scripted'')),
         (Suc (fst w), snd w))),
      mcp_connect = (\<lambda>w cmd args. w),
      mcp_listTools = (\<lambda>w. (Inr catalog, w)),
      mcp_callTool = (\<lambda>w n a.
        ((if snd w < length results then results ! snd w
          else Inl (ErrorInstance ''no result scripted'')),
         (fst w, Suc (snd w)))),
      mcp_close = (\<lambda>w. (Inr (), w)),
      JSON_parse = map_of (map (\<lambda>v. (json_text v, v)) parsed),
      engine_message = (\<lambda>f. ''engine fault''),
      platform_win32 = False,
      execPath = ''/usr/bin/node''\<rparr>"

definition text_reply :: "string \<Rightarrow> jsval" where
  "text_reply s = JObj [(''content'', JArr [JObj [(''type'', JStr ''text''), (''text'', JStr s)]])]"

definition tool_use_block :: "string \<Rightarrow> string \<Rightarrow> jsval \<Rightarrow> jsval" where
  "tool_use_block tid name input = JObj
     [(''type'', JStr ''tool_use''), (''id'', JStr tid), (''name'', JStr name), (''input'', input)]"

definition query_args :: "string \<Rightarrow> jsval" where
  "query_args kce = JObj
     [(''tableName'', JStr ''Users''),
      (''keyConditionExpression'', JStr kce),
      (''expressionAttributeValues'', JObj [('':v'', JStr ''42'')])]"

definition text_result :: "string \<Rightarrow> (string \<times> jsval) list" where
  "text_result s = [(''content'', JArr [JObj [(''type'', JStr ''text''), (''text'', JStr s)]])]"

definition fresh_turn :: "(nat \<times> nat) turn" where
  "fresh_turn = \<lparr>world = (0, 0), events = [], messages = [], finalText = [], toolResults = []\<rparr>"

text \<open>A tool result whose text payload is a JSON object with an \<^verbatim>\<open>items\<close> array.\<close>

definition example_items :: "jsval list" where
  "example_items =
     [JObj [(''id'', JStr ''1''), (''name'', JStr ''Ada''), (''age'', JNum ''36'')],
      JObj [(''id'', JStr ''2''), (''tags'', JArr [JStr ''a'', JNull])]]"

definition items_payload :: jsval where
  "items_payload = JObj [(''items'', JArr example_items), (''count'', JNum ''2'')]"

text \<open>The number of messages a request carries.\<close>

definition message_count :: "command \<Rightarrow> nat" where
  "message_count c = (case request_messages c of JArr ms \<Rightarrow> length ms | _ \<Rightarrow> 0)"

text \<open>
  A reply with a text block and two tool-use blocks, and the results the server of
  part_000 gives for them: the table names for \<^verbatim>\<open>list-tables\<close>, a text for \<^verbatim>\<open>scan-table\<close>.
\<close>

definition two_tool_reply :: jsval where
  "two_tool_reply = JObj
     [(''content'', JArr
        [JObj [(''type'', JStr ''text''), (''text'', JStr ''Let me look.'')],
         tool_use_block ''t1'' ''list-tables'' (JObj []),
         tool_use_block ''t2'' ''scan-table'' (JObj [(''tableName'', JStr ''Users'')])])]"

definition table_names :: jsval where
  "table_names = JArr [JStr ''Users'', JStr ''Orders'']"

definition two_tool_services :: "(nat \<times> nat) services" where
  "two_tool_services =
     scripted []
       [two_tool_reply, text_reply ''Two tables.'', text_reply ''Two users.'',
        table_names, items_payload]
       [Inr two_tool_reply, Inr (text_reply ''Two tables.''), Inr (text_reply ''Two users.'')]
       [Inr (text_result (json_text table_names)), Inr (text_result (json_text items_payload))]"

text \<open>A model endpoint that fails once and then answers.\<close>

definition flaky_services :: "(nat \<times> nat) services" where
  "flaky_services =
     scripted [] [text_reply ''hello'']
       [Inl (ErrorInstance ''ThrottlingException''), Inr (text_reply ''hello'')] []"

text \<open>A model endpoint that answers two questions with plain text.\<close>

definition plain_services :: "(nat \<times> nat) services" where
  "plain_services =
     scripted [JObj [(''name'', JStr ''list-tables''), (''description'', JStr ''List all DynamoDB tables''),
                     (''inputSchema'', JObj [(''type'', JStr ''object'')])]]
       [text_reply ''first answer'', text_reply ''second answer'']
       [Inr (text_reply ''first answer''), Inr (text_reply ''second answer'')] []"

text \<open>What \<^verbatim>\<open>console.log\<close> printed as plain strings.\<close>

definition console_lines :: "event list \<Rightarrow> string list" where
  "console_lines evs = concat (map (\<lambda>e. case e of ConsoleLog s \<Rightarrow> [s] | _ \<Rightarrow> []) evs)"

text \<open>A tool server whose catalog cannot be retrieved.\<close>

definition unreachable_services :: "(nat \<times> nat) services" where
  "unreachable_services =
     plain_services\<lparr>mcp_listTools := (\<lambda>w. (Inl (ErrorInstance ''Connection closed''), w))\<rparr>"















text \<open>
  A model endpoint that asks for the table names and then fails on the follow-up
  request; it answers the question after that.
\<close>

definition one_tool_reply :: jsval where
  "one_tool_reply = JObj [(''content'', JArr [tool_use_block ''t1'' ''list-tables'' (JObj [])])]"

definition follow_up_failing_services :: "(nat \<times> nat) services" where
  "follow_up_failing_services =
     scripted [] [one_tool_reply, text_reply ''hello'', table_names]
       [Inr one_tool_reply, Inl (ErrorInstance ''ModelTimeoutException''),
        Inr (text_reply ''hello'')]
       [Inr (text_result (json_text table_names))]"

section \<open>Facts about the record of a run\<close>

lemma sent_commands_append [simp]:
  "sent_commands (a @ b) = sent_commands a @ sent_commands b"
  by (simp add: sent_commands_def)

lemma tool_calls_append [simp]: "tool_calls (a @ b) = tool_calls a @ tool_calls b"
  by (simp add: tool_calls_def)

lemma tool_calls_simps [simp]:
  "tool_calls [] = []"
  "tool_calls (CalledTool n a # es) = (n, a) # tool_calls es"
  "tool_calls (Sent c # es) = tool_calls es"
  "tool_calls (ConsoleLog s # es) = tool_calls es"
  "tool_calls (LogBedrockError e # es) = tool_calls es"
  "tool_calls (Question s # es) = tool_calls es"
  by (simp_all add: tool_calls_def)

lemma sent_commands_simps [simp]:
  "sent_commands [] = []"
  "sent_commands (Sent c # es) = c # sent_commands es"
  "sent_commands (CalledTool n a # es) = sent_commands es"
  "sent_commands (ConsoleLog s # es) = sent_commands es"
  "sent_commands (LogBedrockError e # es) = sent_commands es"
  "sent_commands (LogConnectFailed e # es) = sent_commands es"
  "sent_commands (LogConnected ns # es) = sent_commands es"
  "sent_commands (StartedTransport p args # es) = sent_commands es"
  "sent_commands (ListedTools # es) = sent_commands es"
  "sent_commands (ClosedClient # es) = sent_commands es"
  "sent_commands (ClosedReadline # es) = sent_commands es"
  "sent_commands (Question s # es) = sent_commands es"
  by (simp_all add: sent_commands_def)

section \<open>The fallback heuristic on one tool-use block\<close>

lemma print_items_frame [simp]:
  "world (print_items svc r t) = world t"
  "messages (print_items svc r t) = messages t"
  "finalText (print_items svc r t) = finalText t"
  "toolResults (print_items svc r t) = toolResults t"
  "sent_commands (events (print_items svc r t)) = sent_commands (events t)"
  "tool_calls (events (print_items svc r t)) = tool_calls (events t)"
  by (simp_all add: print_items_def split: option.splits)

lemma follow_up_frame [simp]:
  "tool_calls (events (snd (follow_up svc cl t))) = tool_calls (events t)"
  "messages (snd (follow_up svc cl t)) = messages t"
  "toolResults (snd (follow_up svc cl t)) = toolResults t"
  "sent_commands (events (snd (follow_up svc cl t)))
     = sent_commands (events t) @ [followUpCommandParams cl (messages t)]"
  by (simp_all add: follow_up_def Let_def split: prod.splits sum.splits option.splits)


text \<open>A key condition that is absent, empty or otherwise falsy renders without the key.\<close>

lemma falsy_has_no_key:
  "\<not> truthy v \<Longrightarrow> \<not> partition_key_test partitionKey (js_ToString v)"
  by (cases v)
     (auto simp add: partition_key_test_def partitionKey_def bare_key_here_def alias_key_here_def
        word_boundary_def is_word_char_def)

lemma isInvalidKeyCondition_iff:
  "isInvalidKeyCondition a \<longleftrightarrow>
     (\<not> partition_key_test partitionKey (js_ToString (js_prop a ''keyConditionExpression''))
      \<or> \<not> truthy (js_prop a ''expressionAttributeValues'')
      \<or> Object_keys_length (js_prop a ''expressionAttributeValues'') = 0
      \<or> comparison_test (js_ToString (js_prop a ''keyConditionExpression'')))"
  using falsy_has_no_key [of "js_prop a ''keyConditionExpression''"]
  by (auto simp add: isInvalidKeyCondition_def missingPartitionKey_def)

lemma dispatch_tool_calls:
  "tool_calls (events (snd (dispatch_tool svc n a t))) = tool_calls (events t) @ [dispatched n a]"
  by (simp add: dispatch_tool_def Let_def split: prod.splits sum.splits)

text \<open>A block whose input is an object makes exactly one call to the server.\<close>

lemma process_tool_use_calls:
  assumes "\<not> js_nullish (js_prop content ''input'')"
  shows "tool_calls (events (snd (process_tool_use svc cl content t)))
           = tool_calls (events t)
               @ [dispatched (js_prop content ''name'') (js_prop content ''input'')]"
proof -
  obtain r t1 where
    d: "dispatch_tool svc (js_prop content ''name'') (js_prop content ''input'') t = (r, t1)"
    by (cases "dispatch_tool svc (js_prop content ''name'') (js_prop content ''input'') t")
  have c: "tool_calls (events t1)
             = tool_calls (events t)
                 @ [dispatched (js_prop content ''name'') (js_prop content ''input'')]"
    using dispatch_tool_calls [of svc "js_prop content ''name''" "js_prop content ''input''" t] d
    by simp
  show ?thesis
    using assms d c by (cases r) (simp_all add: process_tool_use_def Let_def)
qed

text \<open>
  What the heuristic does for the name it tests, \<^verbatim>\<open>query_table\<close> (line 122): a block
  with that name and an input that is not null or undefined, whose key condition lacks
  the partition key \<^verbatim>\<open>id\<close> as a whole word (bare or after \<^verbatim>\<open>#\<close>), or whose value map is
  absent or empty, or whose key condition holds one of the characters \<^verbatim>\<open>< > ! =\<close>, makes
  exactly one call to the server, and that call is \<^verbatim>\<open>scan_table\<close> with the scan
  arguments.
\<close>

lemma underscore_query_dispatched_as_scan:
  assumes "js_prop content ''name'' = JStr ''query_table''"
    and "js_prop content ''input'' = toolArgs"
    and "\<not> js_nullish toolArgs"
    and "\<not> partition_key_test ''id'' (js_ToString (js_prop toolArgs ''keyConditionExpression''))
         \<or> \<not> truthy (js_prop toolArgs ''expressionAttributeValues'')
         \<or> Object_keys_length (js_prop toolArgs ''expressionAttributeValues'') = 0
         \<or> comparison_test (js_ToString (js_prop toolArgs ''keyConditionExpression''))"
  shows "tool_calls (events (snd (process_tool_use svc cl content t)))
           = tool_calls (events t) @ [(JStr ''scan_table'', scanArgs toolArgs)]"
proof -
  have "isInvalidKeyCondition toolArgs"
    using assms(4) by (simp add: isInvalidKeyCondition_iff partitionKey_def)
  then have "dispatched (JStr ''query_table'') toolArgs = (JStr ''scan_table'', scanArgs toolArgs)"
    by (simp add: dispatched_def)
  with assms(1-3) show ?thesis
    by (simp add: process_tool_use_calls)
qed

lemma hyphen_name_dispatched_unmodified:
  "dispatched (JStr ''query-table'') toolArgs = (JStr ''query-table'', toolArgs)"
  by (simp add: dispatched_def)

text \<open>
  C1. The claim asks that a query whose key condition is invalid goes to the server as
  a scan. The tool server registers the query tool as \<^verbatim>\<open>query-table\<close> (part_000, line
  60), and that is the name the model is offered; \<^verbatim>\<open>processQuery\<close> compares the name
  with \<^verbatim>\<open>query_table\<close> (index.js, line 122). So a block that asks for \<^verbatim>\<open>query-table\<close>
  with an input that is not null or undefined makes exactly one call to the server:
  the query it asked for, with its arguments as they were, whatever its key condition.
\<close>

theorem server_named_query_is_not_rewritten:
  assumes "js_prop content ''name'' = JStr ''query-table''"
    and "js_prop content ''input'' = toolArgs"
    and "\<not> js_nullish toolArgs"
  shows "tool_calls (events (snd (process_tool_use svc cl content t)))
           = tool_calls (events t) @ [(JStr ''query-table'', toolArgs)]"
  using assms by (simp add: process_tool_use_calls hyphen_name_dispatched_unmodified)

text \<open>
  The scenario of the specification, a \<^verbatim>\<open>query-table\<close> call with \<^verbatim>\<open>id > :v\<close> and a value
  map: the key condition is invalid for the heuristic, and the call that goes out is
  the query.
\<close>

theorem server_named_query_is_not_rewritten_witness:
  "isInvalidKeyCondition (query_args ''id > :v'')
   \<and> tool_calls (events (snd (process_tool_use
        (scripted [] [text_reply ''done'', JArr []] [Inr (text_reply ''done'')] [Inr (text_result ''[]'')])
        (new_MCPClient JUndefined)
        (tool_use_block ''t1'' ''query-table'' (query_args ''id > :v''))
        fresh_turn)))
     = [(JStr ''query-table'', query_args ''id > :v'')]"
proof -
  have n: "js_prop (tool_use_block ''t1'' ''query-table'' (query_args ''id > :v'')) ''name''
             = JStr ''query-table''"
    by (simp add: tool_use_block_def)
  have i: "js_prop (tool_use_block ''t1'' ''query-table'' (query_args ''id > :v'')) ''input''
             = query_args ''id > :v''"
    by (simp add: tool_use_block_def)
  have o: "\<not> js_nullish (query_args ''id > :v'')"
    by (simp add: js_nullish_def query_args_def)
  have v: "isInvalidKeyCondition (query_args ''id > :v'')"
    by (simp add: isInvalidKeyCondition_def comparison_test_def query_args_def)
  have e: "tool_calls (events fresh_turn) = []"
    by (simp add: fresh_turn_def)
  have "tool_calls (events (snd (process_tool_use
        (scripted [] [text_reply ''done'', JArr []] [Inr (text_reply ''done'')] [Inr (text_result ''[]'')])
        (new_MCPClient JUndefined)
        (tool_use_block ''t1'' ''query-table'' (query_args ''id > :v''))
        fresh_turn)))
     = tool_calls (events fresh_turn) @ [(JStr ''query-table'', query_args ''id > :v'')]"
    by (rule server_named_query_is_not_rewritten [OF n i o])
  then have c: "tool_calls (events (snd (process_tool_use
        (scripted [] [text_reply ''done'', JArr []] [Inr (text_reply ''done'')] [Inr (text_result ''[]'')])
        (new_MCPClient JUndefined)
        (tool_use_block ''t1'' ''query-table'' (query_args ''id > :v''))
        fresh_turn)))
     = [(JStr ''query-table'', query_args ''id > :v'')]"
    by (simp only: e append_Nil)
  from v c show ?thesis by (rule conjI)
qed

text \<open>
  C2. The claim asks that an equality-only key condition on the partition key goes to
  the server as the query it was. The character class of line 120 holds \<^verbatim>\<open>=\<close>, so a
  block that asks for \<^verbatim>\<open>query_table\<close> with any key condition that contains \<^verbatim>\<open>=\<close>
  is rewritten as well: the one call made is \<^verbatim>\<open>scan_table\<close>.
\<close>

theorem equality_query_dispatched_as_scan:
  assumes "js_prop content ''name'' = JStr ''query_table''"
    and "js_prop content ''input'' = toolArgs"
    and "\<not> js_nullish toolArgs"
    and "CHR ''='' \<in> set (js_ToString (js_prop toolArgs ''keyConditionExpression''))"
  shows "tool_calls (events (snd (process_tool_use svc cl content t)))
           = tool_calls (events t) @ [(JStr ''scan_table'', scanArgs toolArgs)]"
proof -
  have "comparison_test (js_ToString (js_prop toolArgs ''keyConditionExpression''))"
    using assms(4) by (auto simp add: comparison_test_def list_ex_iff)
  then have "isInvalidKeyCondition toolArgs"
    by (simp add: isInvalidKeyCondition_def)
  then have "dispatched (JStr ''query_table'') toolArgs = (JStr ''scan_table'', scanArgs toolArgs)"
    by (simp add: dispatched_def)
  with assms(1-3) show ?thesis
    by (simp add: process_tool_use_calls)
qed

text \<open>
  The example of the claim, \<^verbatim>\<open>id = :v\<close> with one value: the key is there, the value map is
  not empty, and the call that goes out is the scan, not the query.
\<close>

theorem equality_query_dispatched_as_scan_witness:
  "partition_key_test ''id'' (js_ToString (js_prop (query_args ''id = :v'') ''keyConditionExpression''))
   \<and> Object_keys_length (js_prop (query_args ''id = :v'') ''expressionAttributeValues'') = 1
   \<and> tool_calls (events (snd (process_tool_use
        (scripted [] [text_reply ''done'', JArr []] [Inr (text_reply ''done'')] [Inr (text_result ''[]'')])
        (new_MCPClient JUndefined)
        (tool_use_block ''t1'' ''query_table'' (query_args ''id = :v''))
        fresh_turn)))
     = [(JStr ''scan_table'', scanArgs (query_args ''id = :v''))]
   \<and> (JStr ''scan_table'', scanArgs (query_args ''id = :v''))
       \<noteq> (JStr ''query_table'', query_args ''id = :v'')"
proof -
  have n: "js_prop (tool_use_block ''t1'' ''query_table'' (query_args ''id = :v'')) ''name''
             = JStr ''query_table''"
    by (simp add: tool_use_block_def)
  have i: "js_prop (tool_use_block ''t1'' ''query_table'' (query_args ''id = :v'')) ''input''
             = query_args ''id = :v''"
    by (simp add: tool_use_block_def)
  have o: "\<not> js_nullish (query_args ''id = :v'')"
    by (simp add: js_nullish_def query_args_def)
  have e: "CHR ''='' \<in> set (js_ToString (js_prop (query_args ''id = :v'') ''keyConditionExpression''))"
    by (simp add: query_args_def)
  have k: "partition_key_test ''id''
             (js_ToString (js_prop (query_args ''id = :v'') ''keyConditionExpression''))"
    by (simp add: query_args_def partition_key_test_def bare_key_here_def word_boundary_def
          is_word_char_def)
  have v: "Object_keys_length (js_prop (query_args ''id = :v'') ''expressionAttributeValues'') = 1"
    by (simp add: query_args_def)
  show ?thesis
    using equality_query_dispatched_as_scan [OF n i o e, of _ _ fresh_turn] k v
    by (simp add: fresh_turn_def)
qed

text \<open>
  C3. Whenever the call that a block sends to the server is not the call the block asked
  for, it is \<^verbatim>\<open>scan_table\<close>, and its arguments are: as \<^verbatim>\<open>filterExpression\<close> the original
  filter expression where one was given (a truthy value, that is a non-empty string) and
  the original key condition otherwise; the original \<^verbatim>\<open>expressionAttributeNames\<close>,
  \<^verbatim>\<open>expressionAttributeValues\<close> and \<^verbatim>\<open>limit\<close>; and no \<^verbatim>\<open>keyConditionExpression\<close>
  property at all.
\<close>

theorem rewritten_call_arguments:
  assumes "\<not> js_nullish (js_prop content ''input'')"
    and "tool_calls (events (snd (process_tool_use svc cl content t)))
           = tool_calls (events t) @ [(name, args)]"
    and "(name, args) \<noteq> (js_prop content ''name'', js_prop content ''input'')"
  shows "name = JStr ''scan_table''
     \<and> js_prop args ''filterExpression''
         = (if truthy (js_prop (js_prop content ''input'') ''filterExpression'')
            then js_prop (js_prop content ''input'') ''filterExpression''
            else js_prop (js_prop content ''input'') ''keyConditionExpression'')
     \<and> js_prop args ''expressionAttributeNames''
         = js_prop (js_prop content ''input'') ''expressionAttributeNames''
     \<and> js_prop args ''expressionAttributeValues''
         = js_prop (js_prop content ''input'') ''expressionAttributeValues''
     \<and> js_prop args ''limit'' = js_prop (js_prop content ''input'') ''limit''
     \<and> ''keyConditionExpression'' \<notin> set (property_names args)"
proof -
  have "(name, args) = dispatched (js_prop content ''name'') (js_prop content ''input'')"
    using assms(1,2) by (simp add: process_tool_use_calls)
  with assms(3) have "name = JStr ''scan_table''"
    and "args = scanArgs (js_prop content ''input'')"
    by (auto simp add: dispatched_def split: if_splits)
  then show ?thesis
    by (simp add: scanArgs_def js_or_def property_names_def)
qed

text \<open>
  A rewritten query without a filter expression: the key condition becomes the filter,
  and the arguments that go out hold no key condition.
\<close>

theorem rewritten_call_arguments_witness:
  "js_prop (scanArgs (query_args ''id > :v'')) ''filterExpression'' = JStr ''id > :v''
   \<and> js_prop (scanArgs (query_args ''id > :v'')) ''expressionAttributeValues''
       = JObj [('':v'', JStr ''42'')]
   \<and> js_prop (scanArgs (query_args ''id > :v'')) ''limit'' = JUndefined
   \<and> ''keyConditionExpression'' \<notin> set (property_names (scanArgs (query_args ''id > :v'')))"
proof -
  let ?svc = "scripted [] [text_reply ''done'', JArr []] [Inr (text_reply ''done'')]
                [Inr (text_result ''[]'')]"
  let ?b = "tool_use_block ''t1'' ''query_table'' (query_args ''id > :v'')"
  have i: "js_prop ?b ''input'' = query_args ''id > :v''"
    by (simp add: tool_use_block_def)
  have n: "js_prop ?b ''name'' = JStr ''query_table''"
    by (simp add: tool_use_block_def)
  have o: "\<not> js_nullish (js_prop ?b ''input'')"
    unfolding i by (simp add: js_nullish_def query_args_def)
  have d: "dispatched (JStr ''query_table'') (query_args ''id > :v'')
             = (JStr ''scan_table'', scanArgs (query_args ''id > :v''))"
    by (simp add: dispatched_def isInvalidKeyCondition_def comparison_test_def query_args_def)
  have c: "tool_calls (events (snd (process_tool_use ?svc (new_MCPClient JUndefined) ?b fresh_turn)))
             = tool_calls (events fresh_turn)
                 @ [(JStr ''scan_table'', scanArgs (query_args ''id > :v''))]"
    using process_tool_use_calls [OF o] by (simp add: i n d)
  have r: "(JStr ''scan_table'', scanArgs (query_args ''id > :v''))
             \<noteq> (js_prop ?b ''name'', js_prop ?b ''input'')"
    by (simp add: n)
  show ?thesis
    using rewritten_call_arguments [OF o c r] unfolding i
    by (simp add: query_args_def)
qed


section \<open>What one tool-use block leaves behind\<close>

text \<open>The block, once its call to the server has returned.\<close>

lemma process_tool_use_returned:
  assumes "\<not> js_nullish (js_prop content ''input'')"
    and "dispatched (js_prop content ''name'') (js_prop content ''input'') = (name, args)"
    and "mcp_callTool svc (world t) name args = (Inr props, w')"
  shows "process_tool_use svc cl content t =
     follow_up svc cl
       (t\<lparr>world := w',
          events := events (print_items svc (JObj props)
                      (t\<lparr>events := events t @ [CalledTool name args]\<rparr>)),
          toolResults := toolResults t @ [JObj props, JObj props],
          finalText := finalText t @
             [JStr (trace_line name args),
              JStr (trace_line (js_prop content ''name'') (js_prop content ''input''))],
          messages := messages t @
             [tool_use_message (js_prop content ''id'') (js_prop content ''name'')
                (js_prop content ''input''),
              tool_result_message (js_prop content ''id'')
                (js_string_of (toolResultContent (js_prop (JObj props) ''content''))
                   @ itemsText svc (js_prop (JObj props) ''content''))]\<rparr>)"
  using assms
  by (simp add: process_tool_use_def dispatch_tool_def Let_def print_items_def
        split: option.splits)

lemma process_tool_use_threw:
  assumes "\<not> js_nullish (js_prop content ''input'')"
    and "dispatched (js_prop content ''name'') (js_prop content ''input'') = (name, args)"
    and "mcp_callTool svc (world t) name args = (Inl e, w')"
  shows "process_tool_use svc cl content t =
     (Some e, t\<lparr>world := w', events := events t @ [CalledTool name args]\<rparr>)"
  using assms by (simp add: process_tool_use_def dispatch_tool_def Let_def)



section \<open>The indented rendering keeps plain values\<close>



























section \<open>Items in the transcript\<close>





section \<open>The transcript of a turn\<close>

lemma tool_pairs_append:
  "tool_pairs a \<Longrightarrow> tool_pairs b \<Longrightarrow> tool_pairs (a @ b)"
  by (induction a rule: tool_pairs.induct) simp_all

lemma follow_ups_append:
  "tool_pairs a \<Longrightarrow>
     follow_ups cl base (a @ b) = follow_ups cl base a @ follow_ups cl (base @ a) b"
proof (induction a arbitrary: base rule: tool_pairs.induct)
  case 1
  then show ?case by simp
next
  case (2 m)
  then show ?case by simp
next
  case (3 u r rest)
  then show ?case by simp
qed

lemma tool_use_then_result:
  "tool_pairs [tool_use_message tid n a, tool_result_message tid txt]"
  by (simp add: tool_use_message_def tool_result_message_def is_tool_use_def is_tool_result_def
        first_block_def)

lemma follow_ups_length:
  "tool_pairs new \<Longrightarrow> length (follow_ups cl base new) = length (filter is_tool_use new)"
proof (induction new arbitrary: base rule: tool_pairs.induct)
  case 1
  then show ?case by simp
next
  case (2 m)
  then show ?case by simp
next
  case (3 u r rest)
  then have "\<not> is_tool_use r"
    by (auto simp add: is_tool_use_def is_tool_result_def)
  with 3 show ?case by simp
qed

lemma follow_ups_carry:
  "c \<in> set (follow_ups cl base new) \<Longrightarrow>
     \<exists>pre. request_messages c = JArr (base @ pre) \<and> modelId c = client_modelId cl
            \<and> inferenceProfileArn c = None \<and> (\<exists>post. new = pre @ post)"
proof (induction cl base new rule: follow_ups.induct)
  case (1 cl base u r rest)
  show ?case
  proof (cases "c = followUpCommandParams cl (base @ [u, r])")
    case True
    then have "request_messages c = JArr (base @ [u, r]) \<and> modelId c = client_modelId cl
                 \<and> inferenceProfileArn c = None \<and> u # r # rest = [u, r] @ rest"
      by (simp add: followUpCommandParams_def followUpPayload_def request_messages_def
            generation_parameters_def)
    then show ?thesis by blast
  next
    case False
    with 1 obtain pre post where
      "request_messages c = JArr ((base @ [u, r]) @ pre)" "modelId c = client_modelId cl"
      "inferenceProfileArn c = None" "rest = pre @ post"
      by auto
    then have "request_messages c = JArr (base @ ([u, r] @ pre)) \<and> modelId c = client_modelId cl
                 \<and> inferenceProfileArn c = None \<and> u # r # rest = ([u, r] @ pre) @ post"
      by simp
    then show ?thesis by blast
  qed
qed simp_all

text \<open>
  One block appends nothing or one tool-use/tool-result pair, and sends the follow-up
  request of that pair.
\<close>

lemma process_tool_use_transcript:
  "\<exists>new. messages (snd (process_tool_use svc cl content t)) = messages t @ new
         \<and> tool_pairs new
         \<and> sent_commands (events (snd (process_tool_use svc cl content t)))
             = sent_commands (events t) @ follow_ups cl (messages t) new"
proof (cases "js_nullish (js_prop content ''input'')")
  case True
  then have "messages (snd (process_tool_use svc cl content t)) = messages t @ []
      \<and> tool_pairs []
      \<and> sent_commands (events (snd (process_tool_use svc cl content t)))
          = sent_commands (events t) @ follow_ups cl (messages t) []"
    by (simp add: process_tool_use_def)
  then show ?thesis by blast
next
  case False
  obtain name args where
    d: "dispatched (js_prop content ''name'') (js_prop content ''input'') = (name, args)"
    by (cases "dispatched (js_prop content ''name'') (js_prop content ''input'')")
  obtain r w' where c: "mcp_callTool svc (world t) name args = (r, w')"
    by (cases "mcp_callTool svc (world t) name args")
  show ?thesis
  proof (cases r)
    case (Inl e)
    with c have "messages (snd (process_tool_use svc cl content t)) = messages t @ []
      \<and> tool_pairs []
      \<and> sent_commands (events (snd (process_tool_use svc cl content t)))
          = sent_commands (events t) @ follow_ups cl (messages t) []"
      by (simp add: process_tool_use_threw [OF False d])
    then show ?thesis by blast
  next
    case (Inr props)
    let ?new = "[tool_use_message (js_prop content ''id'') (js_prop content ''name'')
                   (js_prop content ''input''),
                 tool_result_message (js_prop content ''id'')
                   (js_string_of (toolResultContent (js_prop (JObj props) ''content''))
                      @ itemsText svc (js_prop (JObj props) ''content''))]"
    from Inr c have p: "mcp_callTool svc (world t) name args = (Inr props, w')"
      by simp
    have tp: "tool_pairs ?new"
      by (rule tool_use_then_result)
    have "messages (snd (process_tool_use svc cl content t)) = messages t @ ?new
      \<and> sent_commands (events (snd (process_tool_use svc cl content t)))
          = sent_commands (events t) @ follow_ups cl (messages t) ?new"
      by (simp add: process_tool_use_returned [OF False d p])
    with tp show ?thesis by blast
  qed
qed

lemma process_content_transcript:
  "\<exists>new. messages (snd (process_content svc cl blocks t)) = messages t @ new
         \<and> tool_pairs new
         \<and> sent_commands (events (snd (process_content svc cl blocks t)))
             = sent_commands (events t) @ follow_ups cl (messages t) new"
proof (induction blocks arbitrary: t)
  case Nil
  have "messages (snd (process_content svc cl [] t)) = messages t @ []
      \<and> tool_pairs []
      \<and> sent_commands (events (snd (process_content svc cl [] t)))
          = sent_commands (events t) @ follow_ups cl (messages t) []"
    by simp
  then show ?case by blast
next
  case (Cons content rest)
  let ?goal = "\<lambda>t'. \<exists>new. messages t' = messages t @ new \<and> tool_pairs new
                 \<and> sent_commands (events t')
                     = sent_commands (events t) @ follow_ups cl (messages t) new"
  have stay: "?goal t"
  proof -
    have "messages t = messages t @ [] \<and> tool_pairs []
            \<and> sent_commands (events t) = sent_commands (events t) @ follow_ups cl (messages t) []"
      by simp
    then show ?thesis by blast
  qed
  consider (nullish) "js_nullish content"
    | (textual) "\<not> js_nullish content" "js_prop content ''type'' = JStr ''text''"
    | (tool) "\<not> js_nullish content" "js_prop content ''type'' = JStr ''tool_use''"
    | (other) "\<not> js_nullish content" "js_prop content ''type'' \<noteq> JStr ''text''"
        "js_prop content ''type'' \<noteq> JStr ''tool_use''"
    by blast
  then show ?case
  proof cases
    case nullish
    then show ?thesis using stay by simp
  next
    case textual
    then show ?thesis
      using Cons.IH [of "t\<lparr>finalText := finalText t @ [js_prop content ''text'']\<rparr>"] by simp
  next
    case other
    then show ?thesis using Cons.IH [of t] by simp
  next
    case tool
    obtain r t1 where p: "process_tool_use svc cl content t = (r, t1)"
      by (cases "process_tool_use svc cl content t")
    obtain n1 where n1: "messages t1 = messages t @ n1" "tool_pairs n1"
      "sent_commands (events t1) = sent_commands (events t) @ follow_ups cl (messages t) n1"
      using process_tool_use_transcript [of svc cl content t] p by auto
    show ?thesis
    proof (cases r)
      case (Some e)
      with tool p n1 have "messages (snd (process_content svc cl (content # rest) t))
            = messages t @ n1 \<and> tool_pairs n1
          \<and> sent_commands (events (snd (process_content svc cl (content # rest) t)))
              = sent_commands (events t) @ follow_ups cl (messages t) n1"
        by simp
      then show ?thesis by blast
    next
      case None
      obtain n2 where n2: "messages (snd (process_content svc cl rest t1)) = messages t1 @ n2"
        "tool_pairs n2"
        "sent_commands (events (snd (process_content svc cl rest t1)))
           = sent_commands (events t1) @ follow_ups cl (messages t1) n2"
        using Cons.IH [of t1] by auto
      from None tool p have
        e: "process_content svc cl (content # rest) t = process_content svc cl rest t1"
        by simp
      have "messages (snd (process_content svc cl (content # rest) t)) = messages t @ (n1 @ n2)
          \<and> tool_pairs (n1 @ n2)
          \<and> sent_commands (events (snd (process_content svc cl (content # rest) t)))
              = sent_commands (events t) @ follow_ups cl (messages t) (n1 @ n2)"
        unfolding e using n1 n2 by (simp add: tool_pairs_append follow_ups_append)
      then show ?thesis by blast
    qed
  qed
qed

text \<open>A turn either stops right after its first request or runs the blocks of the reply.\<close>

lemma run_turn_shape:
  assumes "bedrock_send svc w (commandParams cl [user_text_message query]) = (r, w1)"
  shows "(\<exists>e. run_turn svc cl query w evs =
            (Some e, \<lparr>world = w1,
                       events = evs @ [Sent (commandParams cl [user_text_message query])],
                       messages = [user_text_message query],
                       finalText = [], toolResults = []\<rparr>))
       \<or> (\<exists>bs. run_turn svc cl query w evs =
            process_content svc cl bs
              \<lparr>world = w1,
                events = evs @ [Sent (commandParams cl [user_text_message query])],
                messages = [user_text_message query],
                finalText = [], toolResults = []\<rparr>)"
proof (cases r)
  case (Inl e)
  with assms show ?thesis by (simp add: run_turn_def Let_def)
next
  case (Inr reply)
  show ?thesis
  proof (cases "JSON_parse svc reply")
    case None
    with assms Inr show ?thesis by (simp add: run_turn_def Let_def)
  next
    case (Some responseBody)
    show ?thesis
    proof (cases "js_nullish responseBody")
      case True
      with assms Inr Some show ?thesis by (simp add: run_turn_def Let_def)
    next
      case False
      show ?thesis
      proof (cases "js_iterate (js_prop responseBody ''content'')")
        case None
        with assms Inr Some False show ?thesis by (simp add: run_turn_def Let_def)
      next
        case (Some bs)
        with assms Inr \<open>JSON_parse svc reply = Some responseBody\<close> False
        have "run_turn svc cl query w evs =
            process_content svc cl bs
              \<lparr>world = w1,
                events = evs @ [Sent (commandParams cl [user_text_message query])],
                messages = [user_text_message query],
                finalText = [], toolResults = []\<rparr>"
          by (simp add: run_turn_def Let_def)
        then show ?thesis by blast
      qed
    qed
  qed
qed

lemma run_turn_transcript:
  "\<exists>new. messages (snd (run_turn svc cl query w evs)) = user_text_message query # new
         \<and> tool_pairs new
         \<and> sent_commands (events (snd (run_turn svc cl query w evs)))
             = sent_commands evs @ commandParams cl [user_text_message query]
                 # follow_ups cl [user_text_message query] new"
proof -
  let ?cmd = "commandParams cl [user_text_message query]"
  obtain r w1 where s: "bedrock_send svc w ?cmd = (r, w1)"
    by (cases "bedrock_send svc w ?cmd")
  let ?t = "\<lparr>world = w1, events = evs @ [Sent ?cmd], messages = [user_text_message query],
             finalText = [], toolResults = []\<rparr>"
  from run_turn_shape [OF s, of evs] show ?thesis
  proof
    assume "\<exists>e. run_turn svc cl query w evs = (Some e, ?t)"
    then have "messages (snd (run_turn svc cl query w evs)) = user_text_message query # []
         \<and> tool_pairs []
         \<and> sent_commands (events (snd (run_turn svc cl query w evs)))
             = sent_commands evs @ ?cmd # follow_ups cl [user_text_message query] []"
      by auto
    then show ?thesis by blast
  next
    assume "\<exists>bs. run_turn svc cl query w evs = process_content svc cl bs ?t"
    then obtain bs where b: "run_turn svc cl query w evs = process_content svc cl bs ?t"
      by blast
    obtain new where "messages (snd (process_content svc cl bs ?t)) = messages ?t @ new"
      "tool_pairs new"
      "sent_commands (events (snd (process_content svc cl bs ?t)))
         = sent_commands (events ?t) @ follow_ups cl (messages ?t) new"
      using process_content_transcript [of svc cl bs ?t] by blast
    then have "messages (snd (run_turn svc cl query w evs)) = user_text_message query # new
         \<and> tool_pairs new
         \<and> sent_commands (events (snd (run_turn svc cl query w evs)))
             = sent_commands evs @ ?cmd # follow_ups cl [user_text_message query] new"
      unfolding b by simp
    then show ?thesis by blast
  qed
qed


text \<open>
  C6. In every turn, however it ends, the messages appended after the user message are
  tool-use/tool-result pairs: each tool-use message is directly followed by one
  tool-result message with the same id. The requests of the turn are the opening one and
  then one follow-up per pair, each carrying the transcript up to and including its
  tool-result message; so there are as many follow-ups as tool-use messages.
\<close>

theorem tool_use_paired_with_result_and_follow_up:
  "\<exists>new. messages (snd (run_turn svc cl query w evs)) = user_text_message query # new
         \<and> tool_pairs new
         \<and> sent_commands (events (snd (run_turn svc cl query w evs)))
             = sent_commands evs @ commandParams cl [user_text_message query]
                 # follow_ups cl [user_text_message query] new
         \<and> length (follow_ups cl [user_text_message query] new)
             = length (filter is_tool_use new)"
proof -
  obtain new where n: "messages (snd (run_turn svc cl query w evs)) = user_text_message query # new"
    "tool_pairs new"
    "sent_commands (events (snd (run_turn svc cl query w evs)))
       = sent_commands evs @ commandParams cl [user_text_message query]
           # follow_ups cl [user_text_message query] new"
    using run_turn_transcript [of svc cl query w evs] by blast
  from n(2) have "length (follow_ups cl [user_text_message query] new)
                    = length (filter is_tool_use new)"
    by (rule follow_ups_length)
  with n show ?thesis by blast
qed

text \<open>
  A reply with a text block and two tool-use blocks: five messages, the pairs in place,
  and three requests that carry one, three and five messages.
\<close>

theorem tool_use_paired_with_result_and_follow_up_witness:
  "(\<exists>new. messages (snd (run_turn two_tool_services (new_MCPClient JUndefined)
                ''what is there?'' (0, 0) []))
            = user_text_message ''what is there?'' # new
          \<and> tool_pairs new
          \<and> length (follow_ups (new_MCPClient JUndefined)
                       [user_text_message ''what is there?''] new)
              = length (filter is_tool_use new))
   \<and> map is_tool_use (messages (snd (run_turn two_tool_services (new_MCPClient JUndefined)
          ''what is there?'' (0, 0) [])))
       = [False, True, False, True, False]
   \<and> map is_tool_result (messages (snd (run_turn two_tool_services (new_MCPClient JUndefined)
          ''what is there?'' (0, 0) [])))
       = [False, False, True, False, True]
   \<and> map message_count (sent_commands (events (snd (run_turn two_tool_services
          (new_MCPClient JUndefined) ''what is there?'' (0, 0) []))))
       = [1, 3, 5]"
proof -
  have a: "\<exists>new. messages (snd (run_turn two_tool_services (new_MCPClient JUndefined)
                ''what is there?'' (0, 0) []))
            = user_text_message ''what is there?'' # new
          \<and> tool_pairs new
          \<and> length (follow_ups (new_MCPClient JUndefined)
                       [user_text_message ''what is there?''] new)
              = length (filter is_tool_use new)"
    using tool_use_paired_with_result_and_follow_up
      [of two_tool_services "new_MCPClient JUndefined" "''what is there?''" "(0, 0)" "[]"]
    by blast
  have b: "map is_tool_use (messages (snd (run_turn two_tool_services (new_MCPClient JUndefined)
          ''what is there?'' (0, 0) [])))
       = [False, True, False, True, False]"
    by code_simp
  have c: "map is_tool_result (messages (snd (run_turn two_tool_services (new_MCPClient JUndefined)
          ''what is there?'' (0, 0) [])))
       = [False, False, True, False, True]"
    by code_simp
  have d: "map message_count (sent_commands (events (snd (run_turn two_tool_services
          (new_MCPClient JUndefined) ''what is there?'' (0, 0) []))))
       = [1, 3, 5]"
    by code_simp
  from a b c d show ?thesis by blast
qed

section \<open>Turns of a session\<close>

lemma processQuery_sent:
  "\<exists>new. tool_pairs new
         \<and> sent_commands (snd (snd (processQuery svc cl query w evs)))
             = sent_commands evs @ commandParams cl [user_text_message query]
                 # follow_ups cl [user_text_message query] new"
proof -
  obtain r t where rt: "run_turn svc cl query w evs = (r, t)"
    by (cases "run_turn svc cl query w evs")
  obtain new where n: "tool_pairs new"
    "sent_commands (events t)
       = sent_commands evs @ commandParams cl [user_text_message query]
           # follow_ups cl [user_text_message query] new"
    using run_turn_transcript [of svc cl query w evs] rt by auto
  have "sent_commands (snd (snd (processQuery svc cl query w evs))) = sent_commands (events t)"
    using rt by (cases r) (simp_all add: processQuery_def)
  with n show ?thesis by metis
qed

lemma first_request_messages:
  "request_messages (commandParams cl msgs) = JArr msgs"
  by (simp add: request_messages_def commandParams_def payload_def generation_parameters_def)

text \<open>
  C4, as the code has it. The message list is a local of \<^verbatim>\<open>processQuery\<close> (line 57):
  whatever happened before, in every invocation the request that opens the turn carries
  exactly one message, the user message with the current query, and each later request
  of the turn is the follow-up of a tool-use/tool-result pair of this turn, carrying
  that user message and the pairs appended so far. Nothing of an earlier turn is sent.
\<close>

theorem turn_requests_carry_this_turn_only:
  "\<exists>new. tool_pairs new
     \<and> sent_commands (snd (snd (processQuery svc cl query w evs)))
         = sent_commands evs @ commandParams cl [user_text_message query]
             # follow_ups cl [user_text_message query] new
     \<and> request_messages (commandParams cl [user_text_message query])
         = JArr [user_text_message query]
     \<and> (\<forall>c \<in> set (follow_ups cl [user_text_message query] new).
           \<exists>pre post. request_messages c = JArr (user_text_message query # pre)
                       \<and> new = pre @ post)"
proof -
  obtain new where n: "tool_pairs new"
    "sent_commands (snd (snd (processQuery svc cl query w evs)))
       = sent_commands evs @ commandParams cl [user_text_message query]
           # follow_ups cl [user_text_message query] new"
    using processQuery_sent [of svc cl query w evs] by blast
  have "\<forall>c \<in> set (follow_ups cl [user_text_message query] new).
           \<exists>pre post. request_messages c = JArr (user_text_message query # pre)
                       \<and> new = pre @ post"
  proof
    fix c assume "c \<in> set (follow_ups cl [user_text_message query] new)"
    then obtain pre post where
      "request_messages c = JArr ([user_text_message query] @ pre)" "new = pre @ post"
      using follow_ups_carry by blast
    then have "request_messages c = JArr (user_text_message query # pre) \<and> new = pre @ post"
      by simp
    then show "\<exists>pre post. request_messages c = JArr (user_text_message query # pre)
                 \<and> new = pre @ post"
      by blast
  qed
  with n first_request_messages [of cl "[user_text_message query]"] show ?thesis by blast
qed

text \<open>
  A second turn, entered after a first question was asked and answered: its request is
  the second command of the session and holds the second question alone.
\<close>

theorem turn_requests_carry_this_turn_only_witness:
  "map request_messages
     (sent_commands (snd (snd (processQuery plain_services (new_MCPClient JUndefined)
        ''second question'' (1, 0)
        [Sent (commandParams (new_MCPClient JUndefined) [user_text_message ''first question'']),
         ConsoleLog (CHR 0x0A # ''first answer'')]))))
     = [JArr [user_text_message ''first question''],
        JArr [user_text_message ''second question'']]"
proof -
  let ?cl = "new_MCPClient JUndefined"
  let ?evs = "[Sent (commandParams ?cl [user_text_message ''first question'']),
               ConsoleLog (CHR 0x0A # ''first answer'')]"
  have s: "length (sent_commands (snd (snd (processQuery plain_services ?cl
              ''second question'' (1, 0) ?evs)))) = 2"
    by code_simp
  obtain new where n:
    "sent_commands (snd (snd (processQuery plain_services ?cl ''second question'' (1, 0) ?evs)))
       = sent_commands ?evs @ commandParams ?cl [user_text_message ''second question'']
           # follow_ups ?cl [user_text_message ''second question''] new"
    using turn_requests_carry_this_turn_only
      [of plain_services ?cl "''second question''" "(1, 0)" ?evs]
    by blast
  have e: "sent_commands ?evs = [commandParams ?cl [user_text_message ''first question'']]"
    by simp
  from s have "follow_ups ?cl [user_text_message ''second question''] new = []"
    unfolding n e by simp
  then have "sent_commands (snd (snd (processQuery plain_services ?cl
               ''second question'' (1, 0) ?evs)))
      = [commandParams ?cl [user_text_message ''first question''],
         commandParams ?cl [user_text_message ''second question'']]"
    unfolding n e by simp
  then show ?thesis
    by (simp only: list.map first_request_messages)
qed


text \<open>
  C4 as stated, that a later turn sends the transcript of the earlier ones, fails on a
  session of two questions: the request of the second turn holds the second question
  alone.
\<close>

theorem second_turn_request_lacks_first_turn:
  "map request_messages
     (sent_commands (snd (snd (chatLoop plain_services (new_MCPClient JUndefined)
        [''first question'', ''second question'', ''quit''] (0, 0) []))))
     = [JArr [user_text_message ''first question''],
        JArr [user_text_message ''second question'']]
   \<and> user_text_message ''first question'' \<noteq> user_text_message ''second question''"
  by code_simp

section \<open>The requests of a whole run\<close>

lemma processQuery_commands:
  assumes "\<not> truthy (inferenceProfileId cl)"
  shows "\<exists>cs. sent_commands (snd (snd (processQuery svc cl query w evs)))
                 = sent_commands evs @ cs
              \<and> (\<forall>c \<in> set cs. modelId c = client_modelId cl \<and> inferenceProfileArn c = None)"
proof -
  obtain new where n:
    "sent_commands (snd (snd (processQuery svc cl query w evs)))
       = sent_commands evs @ commandParams cl [user_text_message query]
           # follow_ups cl [user_text_message query] new"
    using processQuery_sent [of svc cl query w evs] by blast
  have f: "modelId (commandParams cl [user_text_message query]) = client_modelId cl
           \<and> inferenceProfileArn (commandParams cl [user_text_message query]) = None"
    using assms by (simp add: commandParams_def)
  have "\<forall>c \<in> set (commandParams cl [user_text_message query]
                      # follow_ups cl [user_text_message query] new).
          modelId c = client_modelId cl \<and> inferenceProfileArn c = None"
    using f follow_ups_carry [of _ cl "[user_text_message query]" new] by auto
  with n show ?thesis by blast
qed

lemma chat_rounds_commands:
  assumes "\<not> truthy (inferenceProfileId cl)"
  shows "\<exists>cs. sent_commands (snd (snd (chat_rounds svc cl stdin w evs)))
                 = sent_commands evs @ cs
              \<and> (\<forall>c \<in> set cs. modelId c = client_modelId cl \<and> inferenceProfileArn c = None)"
proof (induction stdin arbitrary: w evs)
  case Nil
  have "sent_commands (snd (snd (chat_rounds svc cl [] w evs))) = sent_commands evs @ []
        \<and> (\<forall>c \<in> set []. modelId c = client_modelId cl \<and> inferenceProfileArn c = None)"
    by simp
  then show ?case by blast
next
  case (Cons message rest)
  consider (quit) "toLowerCase message = ''quit''"
    | (tools) "toLowerCase message \<noteq> ''quit''" "toLowerCase message = ''tools''"
    | (query) "toLowerCase message \<noteq> ''quit''" "toLowerCase message \<noteq> ''tools''"
    by blast
  then show ?case
  proof cases
    case quit
    then have "sent_commands (snd (snd (chat_rounds svc cl (message # rest) w evs)))
                 = sent_commands evs @ []
        \<and> (\<forall>c \<in> set []. modelId c = client_modelId cl \<and> inferenceProfileArn c = None)"
      by simp
    then show ?thesis by blast
  next
    case tools
    then have "chat_rounds svc cl (message # rest) w evs
                 = chat_rounds svc cl rest w (evs @ [Question query_prompt])"
      by simp
    then show ?thesis
      using Cons.IH [of w "evs @ [Question query_prompt]"] by simp
  next
    case query
    obtain response w' evs' where
      p: "processQuery svc cl message w (evs @ [Question query_prompt]) = (response, w', evs')"
      by (cases "processQuery svc cl message w (evs @ [Question query_prompt])") auto
    obtain cs1 where c1: "sent_commands evs' = sent_commands evs @ cs1"
      "\<forall>c \<in> set cs1. modelId c = client_modelId cl \<and> inferenceProfileArn c = None"
      using processQuery_commands [OF assms, of svc message w "evs @ [Question query_prompt]"] p
      by auto
    obtain cs2 where c2:
      "sent_commands (snd (snd (chat_rounds svc cl rest w'
          (evs' @ [ConsoleLog (CHR 0x0A # response)]))))
         = sent_commands (evs' @ [ConsoleLog (CHR 0x0A # response)]) @ cs2"
      "\<forall>c \<in> set cs2. modelId c = client_modelId cl \<and> inferenceProfileArn c = None"
      using Cons.IH [of w' "evs' @ [ConsoleLog (CHR 0x0A # response)]"] by blast
    have e: "chat_rounds svc cl (message # rest) w evs
               = chat_rounds svc cl rest w' (evs' @ [ConsoleLog (CHR 0x0A # response)])"
      using query p by simp
    have "sent_commands (snd (snd (chat_rounds svc cl (message # rest) w evs)))
            = sent_commands evs @ (cs1 @ cs2)
        \<and> (\<forall>c \<in> set (cs1 @ cs2). modelId c = client_modelId cl \<and> inferenceProfileArn c = None)"
      unfolding e using c1 c2 by auto
    then show ?thesis by blast
  qed
qed

lemma chatLoop_commands:
  assumes "\<not> truthy (inferenceProfileId cl)"
  shows "\<exists>cs. sent_commands (snd (snd (chatLoop svc cl stdin w evs)))
                 = sent_commands evs @ cs
              \<and> (\<forall>c \<in> set cs. modelId c = client_modelId cl \<and> inferenceProfileArn c = None)"
proof -
  let ?evs = "evs @ [ConsoleLog (CHR 0x0A # ''MCP Client with Bedrock Started with Bedrock!''),
                     ConsoleLog ''Type your queries, 'tools' to list tools, or 'quit' to exit.'']"
  obtain e w' evs' where r: "chat_rounds svc cl stdin w ?evs = (e, w', evs')"
    by (cases "chat_rounds svc cl stdin w ?evs") auto
  obtain cs where c: "sent_commands evs' = sent_commands ?evs @ cs"
    "\<forall>c \<in> set cs. modelId c = client_modelId cl \<and> inferenceProfileArn c = None"
    using chat_rounds_commands [OF assms, of svc stdin w ?evs] r by auto
  have "sent_commands (snd (snd (chatLoop svc cl stdin w evs))) = sent_commands evs'"
    using r by (cases e) (simp_all add: chatLoop_def)
  with c have "sent_commands (snd (snd (chatLoop svc cl stdin w evs))) = sent_commands evs @ cs"
    by simp
  with c(2) show ?thesis by blast
qed

lemma connectToServer_frame:
  assumes "connectToServer svc cl path w evs = (r, cl', w', evs')"
  shows "sent_commands evs' = sent_commands evs"
    and "client_modelId cl' = client_modelId cl"
    and "inferenceProfileId cl' = inferenceProfileId cl"
  using assms
  by (auto simp add: connectToServer_def Let_def split: if_splits prod.splits sum.splits)

lemma cleanup_and_exit_sent:
  "sent_commands (snd (snd (cleanup_and_exit svc w evs))) = sent_commands evs"
  by (simp add: cleanup_and_exit_def split: prod.splits sum.splits)

lemma main_commands:
  "\<forall>c \<in> set (sent_commands (snd (snd (main svc argv stdin w)))).
     modelId c = ''anthropic.claude-3-sonnet-20240229-v1:0'' \<and> inferenceProfileArn c = None"
proof (cases "length argv < 3")
  case True
  then show ?thesis by (simp add: main_def)
next
  case False
  let ?evs = "[ConsoleLog (''Using inference profile ID: ''
                @ js_ToString (JStr ''us.anthropic.claude-opus-4-1-20250805-v1:0''))]"
  let ?cl = "new_MCPClient (js_or (JStr ''us.anthropic.claude-opus-4-1-20250805-v1:0'') JUndefined)"
  obtain r cl w1 evs1 where c: "connectToServer svc ?cl (argv ! 2) w ?evs = (r, cl, w1, evs1)"
    by (cases "connectToServer svc ?cl (argv ! 2) w ?evs") auto
  have s1: "sent_commands evs1 = []"
    using connectToServer_frame(1) [OF c] by simp
  have m: "client_modelId cl = ''anthropic.claude-3-sonnet-20240229-v1:0''"
    using connectToServer_frame(2) [OF c] by (simp add: new_MCPClient_def)
  have p: "\<not> truthy (inferenceProfileId cl)"
    using connectToServer_frame(3) [OF c] by (simp add: new_MCPClient_def)
  show ?thesis
  proof (cases r)
    case (Some e)
    with False c have "main svc argv stdin w = cleanup_and_exit svc w1 evs1"
      by (simp add: main_def Let_def)
    then show ?thesis by (simp add: cleanup_and_exit_sent s1)
  next
    case None
    obtain e w2 evs2 where l: "chatLoop svc cl stdin w1 evs1 = (e, w2, evs2)"
      by (cases "chatLoop svc cl stdin w1 evs1") auto
    obtain cs where cs: "sent_commands evs2 = sent_commands evs1 @ cs"
      "\<forall>c \<in> set cs. modelId c = client_modelId cl \<and> inferenceProfileArn c = None"
      using chatLoop_commands [OF p, of svc stdin w1 evs1] l by auto
    have "sent_commands (snd (snd (main svc argv stdin w))) = sent_commands evs2"
      using False c None l
      by (cases e) (simp_all add: main_def Let_def cleanup_and_exit_sent)
    with cs s1 m show ?thesis by simp
  qed
qed

text \<open>
  C9. The optional command-line argument after the server path changes nothing: two
  runs that differ only in what follows the server path (nothing at all included) are
  the same run, with the same requests to the model endpoint. The constructor leaves
  \<^verbatim>\<open>inferenceProfileId\<close> null whatever it is given, and every request of a run
  names the model id \<^verbatim>\<open>anthropic.claude-3-sonnet-20240229-v1:0\<close> and has no
  \<^verbatim>\<open>inferenceProfileArn\<close>.
\<close>

theorem inference_profile_argument_has_no_effect:
  "main svc (node # script # path # given) stdin w
     = main svc (node # script # path # given') stdin w
   \<and> inferenceProfileId (new_MCPClient p) = JNull
   \<and> (\<forall>c \<in> set (sent_commands (snd (snd (main svc argv stdin w)))).
         modelId c = ''anthropic.claude-3-sonnet-20240229-v1:0''
         \<and> inferenceProfileArn c = None)"
proof -
  have "main svc (node # script # path # given) stdin w
          = main svc (node # script # path # given') stdin w"
    by (simp add: main_def)
  moreover have "inferenceProfileId (new_MCPClient p) = JNull"
    by (simp add: new_MCPClient_def)
  ultimately show ?thesis
    using main_commands [of svc argv stdin w] by blast
qed

text \<open>A run with a profile id on the command line and the same run without one.\<close>

theorem inference_profile_argument_has_no_effect_witness:
  "main plain_services [''node'', ''index.js'', ''server.js'', ''my-profile'']
        [''first question'', ''quit''] (0, 0)
     = main plain_services [''node'', ''index.js'', ''server.js'']
        [''first question'', ''quit''] (0, 0)
   \<and> map modelId (sent_commands (snd (snd (main plain_services
          [''node'', ''index.js'', ''server.js'', ''my-profile'']
          [''first question'', ''quit''] (0, 0)))))
       = [''anthropic.claude-3-sonnet-20240229-v1:0'']
   \<and> map inferenceProfileArn (sent_commands (snd (snd (main plain_services
          [''node'', ''index.js'', ''server.js'', ''my-profile'']
          [''first question'', ''quit''] (0, 0)))))
       = [None]"
proof -
  have a: "main plain_services [''node'', ''index.js'', ''server.js'', ''my-profile'']
        [''first question'', ''quit''] (0, 0)
     = main plain_services [''node'', ''index.js'', ''server.js'']
        [''first question'', ''quit''] (0, 0)"
    using inference_profile_argument_has_no_effect
      [of plain_services "''node''" "''index.js''" "''server.js''" "[''my-profile'']"
          "[''first question'', ''quit'']" "(0, 0)" "[]"]
    by blast
  have b: "map modelId (sent_commands (snd (snd (main plain_services
          [''node'', ''index.js'', ''server.js'', ''my-profile'']
          [''first question'', ''quit''] (0, 0)))))
       = [''anthropic.claude-3-sonnet-20240229-v1:0'']"
    by code_simp
  have c: "map inferenceProfileArn (sent_commands (snd (snd (main plain_services
          [''node'', ''index.js'', ''server.js'', ''my-profile'']
          [''first question'', ''quit''] (0, 0)))))
       = [None]"
    by code_simp
  from a b c show ?thesis by blast
qed


section \<open>Failures of the model endpoint\<close>

lemma follow_up_failure:
  "bedrock_send svc (world t) (followUpCommandParams cl (messages t)) = (Inl e, w')
     \<Longrightarrow> follow_up svc cl t
           = (Some e, t\<lparr>world := w',
                         events := events t @ [Sent (followUpCommandParams cl (messages t))]\<rparr>)"
  by (simp add: follow_up_def Let_def)

lemma thrown_becomes_reply:
  "run_turn svc cl query w evs = (Some e, t)
     \<Longrightarrow> processQuery svc cl query w evs = (error_reply e, world t, events t @ [LogBedrockError e])"
  by (simp add: processQuery_def)

text \<open>Blocks that were run without a throw hand their state to the blocks after them.\<close>

lemma process_content_append:
  "process_content svc cl before t = (None, t1)
     \<Longrightarrow> process_content svc cl (before @ bs) t = process_content svc cl bs t1"
proof (induction before arbitrary: t)
  case Nil
  then show ?case by simp
next
  case (Cons content rest)
  consider (nullish) "js_nullish content"
    | (textual) "\<not> js_nullish content" "js_prop content ''type'' = JStr ''text''"
    | (tool) "\<not> js_nullish content" "js_prop content ''type'' = JStr ''tool_use''"
    | (other) "\<not> js_nullish content" "js_prop content ''type'' \<noteq> JStr ''text''"
        "js_prop content ''type'' \<noteq> JStr ''tool_use''"
    by blast
  then show ?case
  proof cases
    case nullish
    with Cons.prems show ?thesis by simp
  next
    case textual
    with Cons.prems Cons.IH [of "t\<lparr>finalText := finalText t @ [js_prop content ''text'']\<rparr>"]
    show ?thesis by simp
  next
    case other
    with Cons.prems Cons.IH [of t] show ?thesis by simp
  next
    case tool
    obtain r t' where p: "process_tool_use svc cl content t = (r, t')"
      by (cases "process_tool_use svc cl content t")
    show ?thesis
    proof (cases r)
      case (Some e)
      with tool p Cons.prems show ?thesis by simp
    next
      case None
      with tool p Cons.prems have "process_content svc cl rest t' = (None, t1)" by simp
      then have "process_content svc cl (rest @ bs) t' = process_content svc cl bs t1"
        by (rule Cons.IH)
      with None tool p show ?thesis by simp
    qed
  qed
qed

text \<open>
  A follow-up request that fails ends the turn with what the call threw: the reply of
  the opening request was parsed, the blocks before the tool-use block \<open>content\<close> ran
  without a throw and left the state \<open>t1\<close>, the call to the server returned, and the
  request sent after the tool-result message was appended failed with \<open>e\<close>.
\<close>

lemma follow_up_failure_ends_turn:
  assumes "bedrock_send svc w (commandParams cl [user_text_message message]) = (Inr reply, w1)"
    and "JSON_parse svc reply = Some responseBody"
    and "\<not> js_nullish responseBody"
    and "js_iterate (js_prop responseBody ''content'') = Some (before @ content # after)"
    and "process_content svc cl before
           \<lparr>world = w1, events = evs @ [Sent (commandParams cl [user_text_message message])],
            messages = [user_text_message message], finalText = [], toolResults = []\<rparr>
           = (None, t1)"
    and "\<not> js_nullish content"
    and "js_prop content ''type'' = JStr ''tool_use''"
    and "\<not> js_nullish (js_prop content ''input'')"
    and "dispatched (js_prop content ''name'') (js_prop content ''input'') = (name, args)"
    and "mcp_callTool svc (world t1) name args = (Inr props, w2)"
    and "bedrock_send svc w2
           (followUpCommandParams cl
              (messages t1 @
                 [tool_use_message (js_prop content ''id'') (js_prop content ''name'')
                    (js_prop content ''input''),
                  tool_result_message (js_prop content ''id'')
                    (js_string_of (toolResultContent (js_prop (JObj props) ''content''))
                       @ itemsText svc (js_prop (JObj props) ''content''))]))
           = (Inl e, w3)"
  shows "fst (processQuery svc cl message w evs) = error_reply e
     \<and> fst (snd (processQuery svc cl message w evs)) = w3"
proof -
  let ?t0 = "\<lparr>world = w1, events = evs @ [Sent (commandParams cl [user_text_message message])],
              messages = [user_text_message message], finalText = [], toolResults = []\<rparr>"
  let ?t5 = "t1\<lparr>world := w2,
          events := events (print_items svc (JObj props)
                      (t1\<lparr>events := events t1 @ [CalledTool name args]\<rparr>)),
          toolResults := toolResults t1 @ [JObj props, JObj props],
          finalText := finalText t1 @
             [JStr (trace_line name args),
              JStr (trace_line (js_prop content ''name'') (js_prop content ''input''))],
          messages := messages t1 @
             [tool_use_message (js_prop content ''id'') (js_prop content ''name'')
                (js_prop content ''input''),
              tool_result_message (js_prop content ''id'')
                (js_string_of (toolResultContent (js_prop (JObj props) ''content''))
                   @ itemsText svc (js_prop (JObj props) ''content''))]\<rparr>"
  have r: "run_turn svc cl message w evs
             = process_content svc cl (before @ content # after) ?t0"
    using assms(1-4) by (simp add: run_turn_def Let_def)
  have a: "process_content svc cl (before @ content # after) ?t0
             = process_content svc cl (content # after) t1"
    using assms(5) by (rule process_content_append)
  have u: "process_tool_use svc cl content t1 = follow_up svc cl ?t5"
    by (rule process_tool_use_returned [OF assms(8-10)])
  have "bedrock_send svc (world ?t5) (followUpCommandParams cl (messages ?t5)) = (Inl e, w3)"
    using assms(11) by simp
  then have f: "follow_up svc cl ?t5
      = (Some e, ?t5\<lparr>world := w3,
                       events := events ?t5 @ [Sent (followUpCommandParams cl (messages ?t5))]\<rparr>)"
    by (rule follow_up_failure)
  have pc: "process_content svc cl (content # after) t1
      = (case process_tool_use svc cl content t1 of
           (Some e, t') \<Rightarrow> (Some e, t')
         | (None, t') \<Rightarrow> process_content svc cl after t')"
    using assms(6,7) by simp
  have "process_content svc cl (content # after) t1
      = (Some e, ?t5\<lparr>world := w3,
                       events := events ?t5 @ [Sent (followUpCommandParams cl (messages ?t5))]\<rparr>)"
    unfolding pc u f by simp
  with r a have "run_turn svc cl message w evs
      = (Some e, ?t5\<lparr>world := w3,
                       events := events ?t5 @ [Sent (followUpCommandParams cl (messages ?t5))]\<rparr>)"
    by simp
  then show ?thesis
    by (simp add: thrown_becomes_reply)
qed

text \<open>
  C8. An error of a model-endpoint invocation of a turn does not leave
  \<^verbatim>\<open>processQuery\<close>: the call returns \<^verbatim>\<open>Error: \<close> followed by the message of the error (its
  string form when it is not an Error). This holds when the request that opens the turn
  fails, and when the follow-up request of any tool-use block of the reply fails (the
  blocks before it having run without a throw). The loop prints whatever
  \<^verbatim>\<open>processQuery\<close> returned and goes on with the lines that follow.
\<close>

theorem model_failure_is_reported_and_loop_goes_on:
  assumes "toLowerCase message \<noteq> ''quit''"
    and "toLowerCase message \<noteq> ''tools''"
  shows "(bedrock_send svc w (commandParams cl [user_text_message message]) = (Inl e, w')
           \<longrightarrow> processQuery svc cl message w evs
                 = (''Error: '' @ (case e of ErrorInstance m \<Rightarrow> m | NonError v \<Rightarrow> js_ToString v),
                    w',
                    evs @ [Sent (commandParams cl [user_text_message message]),
                           LogBedrockError e]))
     \<and> (bedrock_send svc w (commandParams cl [user_text_message message]) = (Inr reply, w1)
          \<and> JSON_parse svc reply = Some responseBody
          \<and> \<not> js_nullish responseBody
          \<and> js_iterate (js_prop responseBody ''content'') = Some (before @ content # after)
          \<and> process_content svc cl before
                \<lparr>world = w1, events = evs @ [Sent (commandParams cl [user_text_message message])],
                 messages = [user_text_message message], finalText = [], toolResults = []\<rparr>
                = (None, t1)
          \<and> \<not> js_nullish content
          \<and> js_prop content ''type'' = JStr ''tool_use''
          \<and> \<not> js_nullish (js_prop content ''input'')
          \<and> dispatched (js_prop content ''name'') (js_prop content ''input'') = (name, args)
          \<and> mcp_callTool svc (world t1) name args = (Inr props, w2)
          \<and> bedrock_send svc w2
                (followUpCommandParams cl
                   (messages t1 @
                      [tool_use_message (js_prop content ''id'') (js_prop content ''name'')
                         (js_prop content ''input''),
                       tool_result_message (js_prop content ''id'')
                         (js_string_of (toolResultContent (js_prop (JObj props) ''content''))
                            @ itemsText svc (js_prop (JObj props) ''content''))]))
                = (Inl e2, w3)
          \<longrightarrow> fst (processQuery svc cl message w evs)
                 = ''Error: '' @ (case e2 of ErrorInstance m \<Rightarrow> m | NonError v \<Rightarrow> js_ToString v)
              \<and> fst (snd (processQuery svc cl message w evs)) = w3)
     \<and> chat_rounds svc cl (message # rest) w evs
         = (case processQuery svc cl message w (evs @ [Question query_prompt]) of
              (response, w4, evs4) \<Rightarrow>
                chat_rounds svc cl rest w4 (evs4 @ [ConsoleLog (CHR 0x0A # response)]))"
proof (intro conjI impI)
  assume "bedrock_send svc w (commandParams cl [user_text_message message]) = (Inl e, w')"
  then show "processQuery svc cl message w evs
                 = (''Error: '' @ (case e of ErrorInstance m \<Rightarrow> m | NonError v \<Rightarrow> js_ToString v),
                    w',
                    evs @ [Sent (commandParams cl [user_text_message message]),
                           LogBedrockError e])"
    by (simp add: processQuery_def run_turn_def Let_def error_reply_def)
next
  assume h: "bedrock_send svc w (commandParams cl [user_text_message message]) = (Inr reply, w1)
          \<and> JSON_parse svc reply = Some responseBody
          \<and> \<not> js_nullish responseBody
          \<and> js_iterate (js_prop responseBody ''content'') = Some (before @ content # after)
          \<and> process_content svc cl before
                \<lparr>world = w1, events = evs @ [Sent (commandParams cl [user_text_message message])],
                 messages = [user_text_message message], finalText = [], toolResults = []\<rparr>
                = (None, t1)
          \<and> \<not> js_nullish content
          \<and> js_prop content ''type'' = JStr ''tool_use''
          \<and> \<not> js_nullish (js_prop content ''input'')
          \<and> dispatched (js_prop content ''name'') (js_prop content ''input'') = (name, args)
          \<and> mcp_callTool svc (world t1) name args = (Inr props, w2)
          \<and> bedrock_send svc w2
                (followUpCommandParams cl
                   (messages t1 @
                      [tool_use_message (js_prop content ''id'') (js_prop content ''name'')
                         (js_prop content ''input''),
                       tool_result_message (js_prop content ''id'')
                         (js_string_of (toolResultContent (js_prop (JObj props) ''content''))
                            @ itemsText svc (js_prop (JObj props) ''content''))]))
                = (Inl e2, w3)"
  have "fst (processQuery svc cl message w evs) = error_reply e2
     \<and> fst (snd (processQuery svc cl message w evs)) = w3"
    by (rule follow_up_failure_ends_turn
          [of svc w cl message reply w1 responseBody before content after evs t1 name args props
              w2 e2 w3])
       (use h in blast)+
  then show "fst (processQuery svc cl message w evs)
                 = ''Error: '' @ (case e2 of ErrorInstance m \<Rightarrow> m | NonError v \<Rightarrow> js_ToString v)"
    and "fst (snd (processQuery svc cl message w evs)) = w3"
    by (simp_all add: error_reply_def)
next
  show "chat_rounds svc cl (message # rest) w evs
         = (case processQuery svc cl message w (evs @ [Question query_prompt]) of
              (response, w4, evs4) \<Rightarrow>
                chat_rounds svc cl rest w4 (evs4 @ [ConsoleLog (CHR 0x0A # response)]))"
    using assms by simp
qed

text \<open>
  Two sessions. In the first the endpoint fails on the opening request of the first
  question; in the second it asks for the table names and fails on the follow-up
  request. Both times the loop prints the error string, answers the next question and
  ends on \<^verbatim>\<open>quit\<close>.
\<close>

theorem model_failure_is_reported_and_loop_goes_on_witness:
  "fst (processQuery flaky_services (new_MCPClient JUndefined) ''first question'' (0, 0) [])
     = ''Error: ThrottlingException''
   \<and> fst (processQuery follow_up_failing_services (new_MCPClient JUndefined)
            ''list the tables'' (0, 0) [])
     = ''Error: ModelTimeoutException''
   \<and> console_lines (snd (snd (chat_rounds flaky_services (new_MCPClient JUndefined)
        [''first question'', ''second question'', ''quit''] (0, 0) [])))
     = [CHR 0x0A # ''Error: ThrottlingException'', CHR 0x0A # ''hello'']
   \<and> console_lines (snd (snd (chat_rounds follow_up_failing_services (new_MCPClient JUndefined)
        [''list the tables'', ''second question'', ''quit''] (0, 0) [])))
     = [CHR 0x0A # ''Error: ModelTimeoutException'', CHR 0x0A # ''hello'']
   \<and> tool_calls (snd (snd (chat_rounds follow_up_failing_services (new_MCPClient JUndefined)
        [''list the tables'', ''second question'', ''quit''] (0, 0) [])))
     = [(JStr ''list-tables'', JObj [])]"
proof -
  let ?cl = "new_MCPClient JUndefined"
  let ?b = "tool_use_block ''t1'' ''list-tables'' (JObj [])"
  let ?um = "user_text_message ''list the tables''"
  let ?t1 = "\<lparr>world = (1 :: nat, 0 :: nat), events = [] @ [Sent (commandParams ?cl [?um])],
              messages = [?um], finalText = [], toolResults = []\<rparr>"
  have q1: "toLowerCase ''first question'' \<noteq> ''quit''"
    and t1: "toLowerCase ''first question'' \<noteq> ''tools''"
    and q2: "toLowerCase ''list the tables'' \<noteq> ''quit''"
    and t2: "toLowerCase ''list the tables'' \<noteq> ''tools''"
    by (simp_all add: toLowerCase_def)
  have s: "bedrock_send flaky_services (0, 0) (commandParams ?cl [user_text_message ''first question''])
             = (Inl (ErrorInstance ''ThrottlingException''), (1, 0))"
    by (simp add: flaky_services_def scripted_def)
  have "processQuery flaky_services ?cl ''first question'' (0, 0) []
          = (''Error: '' @ (case ErrorInstance ''ThrottlingException'' of
                              ErrorInstance m \<Rightarrow> m | NonError v \<Rightarrow> js_ToString v),
             (1, 0),
             [] @ [Sent (commandParams ?cl [user_text_message ''first question'']),
                   LogBedrockError (ErrorInstance ''ThrottlingException'')])"
    by (rule mp [OF conjunct1 [OF model_failure_is_reported_and_loop_goes_on [OF q1 t1]]])
       (rule s)
  then have a: "fst (processQuery flaky_services ?cl ''first question'' (0, 0) [])
                  = ''Error: ThrottlingException''"
    by simp
  have p: "JSON_parse follow_up_failing_services (json_text one_tool_reply) = Some one_tool_reply"
    by code_simp
  have i: "js_iterate (js_prop one_tool_reply ''content'') = Some ([] @ ?b # [])"
    by (simp add: one_tool_reply_def js_iterate_def)
  have "fst (processQuery follow_up_failing_services ?cl ''list the tables'' (0, 0) [])
          = ''Error: '' @ (case ErrorInstance ''ModelTimeoutException'' of
                             ErrorInstance m \<Rightarrow> m | NonError v \<Rightarrow> js_ToString v)
        \<and> fst (snd (processQuery follow_up_failing_services ?cl ''list the tables'' (0, 0) []))
            = (2, 1)"
    by (rule mp [OF conjunct1 [OF conjunct2 [OF model_failure_is_reported_and_loop_goes_on
          [OF q2 t2,
           where svc = follow_up_failing_services and cl = ?cl and w = "(0, 0)" and evs = "[]"
             and reply = "json_text one_tool_reply" and ?w1.0 = "(1, 0)"
             and responseBody = one_tool_reply and before = "[]" and content = ?b
             and after = "[]" and ?t1.0 = ?t1 and name = "JStr ''list-tables''"
             and args = "JObj []" and props = "text_result (json_text table_names)"
             and ?w2.0 = "(1, 1)" and ?e2.0 = "ErrorInstance ''ModelTimeoutException''"
             and ?w3.0 = "(2, 1)"]]]],
        intro conjI)
       (simp_all add: p i follow_up_failing_services_def scripted_def tool_use_block_def
          js_nullish_def one_tool_reply_def dispatched_def js_iterate_def)
  then have b: "fst (processQuery follow_up_failing_services ?cl ''list the tables'' (0, 0) [])
                  = ''Error: ModelTimeoutException''"
    by simp
  have c: "console_lines (snd (snd (chat_rounds flaky_services ?cl
        [''first question'', ''second question'', ''quit''] (0, 0) [])))
     = [CHR 0x0A # ''Error: ThrottlingException'', CHR 0x0A # ''hello'']"
    by code_simp
  have d: "console_lines (snd (snd (chat_rounds follow_up_failing_services ?cl
        [''list the tables'', ''second question'', ''quit''] (0, 0) [])))
     = [CHR 0x0A # ''Error: ModelTimeoutException'', CHR 0x0A # ''hello'']"
    by code_simp
  have e: "tool_calls (snd (snd (chat_rounds follow_up_failing_services ?cl
        [''list the tables'', ''second question'', ''quit''] (0, 0) [])))
     = [(JStr ''list-tables'', JObj [])]"
    by code_simp
  show ?thesis
    by (intro conjI, rule a, rule b, rule c, rule d, rule e)
qed

section \<open>How the process ends\<close>

lemma connectToServer_outcome:
  "fst (connectToServer svc cl path w evs) = fst (connectToServer svc cl' path w evs')"
  by (simp add: connectToServer_def Let_def split: prod.splits sum.splits)

lemma cleanup_and_exit_zero:
  "fst (mcp_close svc w) = Inr () \<Longrightarrow> fst (cleanup_and_exit svc w evs) = Exit 0"
  by (cases "mcp_close svc w") (simp add: cleanup_and_exit_def)

text \<open>With a working server, \<^verbatim>\<open>quit\<close> as the first line ends the process with code 0.\<close>

lemma quit_exits_with_zero:
  assumes "3 \<le> length argv"
    and "fst (connectToServer svc (new_MCPClient JUndefined) (argv ! 2) w []) = None"
    and "\<forall>w'. fst (mcp_close svc w') = Inr ()"
    and "toLowerCase line = ''quit''"
  shows "fst (main svc argv (line # rest) w) = Exit 0"
proof -
  let ?cl = "new_MCPClient (js_or (JStr ''us.anthropic.claude-opus-4-1-20250805-v1:0'') JUndefined)"
  let ?evs = "[ConsoleLog (''Using inference profile ID: ''
                @ js_ToString (JStr ''us.anthropic.claude-opus-4-1-20250805-v1:0''))]"
  obtain r cl w1 evs1 where c: "connectToServer svc ?cl (argv ! 2) w ?evs = (r, cl, w1, evs1)"
    by (cases "connectToServer svc ?cl (argv ! 2) w ?evs") auto
  have "r = None"
    using assms(2) c connectToServer_outcome [of svc ?cl "argv ! 2" w ?evs "new_MCPClient JUndefined" "[]"]
    by simp
  with c assms(1,4) have "main svc argv (line # rest) w
      = cleanup_and_exit svc w1
          (evs1 @ [ConsoleLog (CHR 0x0A # ''MCP Client with Bedrock Started with Bedrock!''),
                   ConsoleLog ''Type your queries, 'tools' to list tools, or 'quit' to exit.'',
                   Question query_prompt, ClosedReadline])"
    by (simp add: main_def Let_def chatLoop_def)
  then show ?thesis
    using assms(3) by (simp add: cleanup_and_exit_zero)
qed

text \<open>
  C5. The claim asks for exit code 1 when the start-up fails. In \<^verbatim>\<open>main\<close> the
  \<^verbatim>\<open>finally\<close> block of lines 283 to 286 runs \<^verbatim>\<open>process.exit(0)\<close> after the clean-up on
  every path, so when \<^verbatim>\<open>connectToServer\<close> throws (the script path has the wrong
  extension, or the tool catalog cannot be retrieved) and the clean-up returns, the
  process ends with code 0.
\<close>

theorem startup_failure_exits_with_zero:
  assumes "3 \<le> length argv"
    and "fst (connectToServer svc (new_MCPClient JUndefined) (argv ! 2) w []) = Some e"
    and "\<forall>w'. fst (mcp_close svc w') = Inr ()"
  shows "fst (main svc argv stdin w) = Exit 0"
proof -
  let ?cl = "new_MCPClient (js_or (JStr ''us.anthropic.claude-opus-4-1-20250805-v1:0'') JUndefined)"
  let ?evs = "[ConsoleLog (''Using inference profile ID: ''
                @ js_ToString (JStr ''us.anthropic.claude-opus-4-1-20250805-v1:0''))]"
  obtain r cl w1 evs1 where c: "connectToServer svc ?cl (argv ! 2) w ?evs = (r, cl, w1, evs1)"
    by (cases "connectToServer svc ?cl (argv ! 2) w ?evs") auto
  have "r = Some e"
    using assms(2) c connectToServer_outcome [of svc ?cl "argv ! 2" w ?evs "new_MCPClient JUndefined" "[]"]
    by simp
  with c assms(1) have "main svc argv stdin w = cleanup_and_exit svc w1 evs1"
    by (simp add: main_def Let_def)
  then show ?thesis
    using assms(3) by (simp add: cleanup_and_exit_zero)
qed

text \<open>
  A server script that is neither \<^verbatim>\<open>.js\<close> nor \<^verbatim>\<open>.py\<close>, and a server whose catalog cannot
  be retrieved: both runs end with \<^verbatim>\<open>process.exit(0)\<close>.
\<close>

theorem startup_failure_exits_with_zero_witness:
  "fst (main plain_services [''node'', ''index.js'', ''server.txt''] [''quit''] (0, 0)) = Exit 0
   \<and> fst (main unreachable_services [''node'', ''index.js'', ''server.js''] [''quit''] (0, 0))
       = Exit 0"
proof -
  have c1: "\<forall>w'. fst (mcp_close plain_services w') = Inr ()"
    by (simp add: plain_services_def scripted_def)
  have c2: "\<forall>w'. fst (mcp_close unreachable_services w') = Inr ()"
    by (simp add: unreachable_services_def plain_services_def scripted_def)
  have f1: "fst (connectToServer plain_services (new_MCPClient JUndefined)
                   ([''node'', ''index.js'', ''server.txt''] ! 2) (0, 0) [])
              = Some (ErrorInstance ''Server script must be a .js or .py file'')"
    by (simp add: connectToServer_def ends_with_def Let_def)
  have f2: "fst (connectToServer unreachable_services (new_MCPClient JUndefined)
                   ([''node'', ''index.js'', ''server.js''] ! 2) (0, 0) [])
              = Some (ErrorInstance ''Connection closed'')"
    by (simp add: connectToServer_def ends_with_def unreachable_services_def
          plain_services_def scripted_def Let_def)
  have l: "3 \<le> length [''node'', ''index.js'', ''server.txt'']"
    "3 \<le> length [''node'', ''index.js'', ''server.js'']"
    by simp_all
  show ?thesis
    using startup_failure_exits_with_zero [OF l(1) f1 c1]
      startup_failure_exits_with_zero [OF l(2) f2 c2]
    by blast
qed


end
